theory Spec2Isabelle
  imports Complex_Main
begin

section \<open>Particle type classification\<close>

text \<open>
  \<^verbatim>\<open>enum class ParticleType { Random, AzimuthallyRandom, General }\<close> and
  \<^verbatim>\<open>ScatteringDataFieldBase::determine_type\<close>. \<^verbatim>\<open>Index\<close> is a signed
  integer; the function only compares its arguments with 1, so the arguments are
  integers and no arithmetic can wrap. The fourth argument is ignored, as in the
  source.
\<close>

datatype ParticleType = Random | AzimuthallyRandom | General

definition determine_type :: "int \<Rightarrow> int \<Rightarrow> int \<Rightarrow> int \<Rightarrow> ParticleType" where
  "determine_type n_lon_inc n_lat_inc n_lon_scat n_lat_scat =
     (if n_lon_inc = 1 \<and> n_lat_inc = 1 \<and> n_lon_scat = 1 then Random
      else if n_lon_inc = 1 then AzimuthallyRandom
      else General)"

section \<open>Dense tensors\<close>

text \<open>
  The data tensors are dense arrays of fixed rank, addressed by one coordinate per axis.
  A tensor of rank k is a list nested k deep, outermost axis first, so that
  \<open>d ! f ! t\<close> is the sub-tensor at frequency index \<open>f\<close> and temperature
  index \<open>t\<close>. A value of type \<^verbatim>\<open>Scalar\<close> is a real number. The
  arithmetic of \<^verbatim>\<open>Scalar\<close> rounds, and where a method divides and multiplies
  scalars to rescale the data, as \<^verbatim>\<open>normalize\<close> of the gridded format does, the
  two operations are parameters of the method's definition.
\<close>

type_synonym 'a tensor5 = "'a list list list list list"
type_synonym 'a tensor6 = "'a list list list list list list"
type_synonym 'a tensor7 = "'a list list list list list list list"

text \<open>The first sub-tensor along the outermost axis; empty when that axis is empty.\<close>

definition first :: "'a list list \<Rightarrow> 'a list" where
  "first xs = (case xs of [] \<Rightarrow> [] | x # _ \<Rightarrow> x)"

text \<open>
  \<^verbatim>\<open>data_->dimension(6)\<close> of a rank-7 tensor: the length of the element axis. An
  axis below an empty axis is reported as 0.
\<close>

definition dimension_6 :: "'a tensor7 \<Rightarrow> nat" where
  "dimension_6 d = length (first (first (first (first (first (first d))))))"

text \<open>
  A tensor is rectangular with the given axis lengths: \<open>rect n P xs\<close> says that
  the axis \<open>xs\<close> has length \<open>n\<close> and every sub-tensor satisfies \<open>P\<close>.
\<close>

definition rect :: "nat \<Rightarrow> ('a \<Rightarrow> bool) \<Rightarrow> 'a list \<Rightarrow> bool" where
  "rect n P xs = (length xs = n \<and> list_all P xs)"

definition has_dims7 ::
  "nat \<Rightarrow> nat \<Rightarrow> nat \<Rightarrow> nat \<Rightarrow> nat \<Rightarrow> nat \<Rightarrow> nat \<Rightarrow> 'a tensor7 \<Rightarrow> bool" where
  "has_dims7 n0 n1 n2 n3 n4 n5 n6 d =
     rect n0 (rect n1 (rect n2 (rect n3 (rect n4 (rect n5 (\<lambda>v. length v = n6)))))) d"

text \<open>
  \<^verbatim>\<open>eigen::get_submatrix<4, 5>(t, {f, t, lo, la, e})\<close> on a rank-7 tensor: the
  matrix over the scattering azimuth (rows) and scattering zenith (columns) axes at
  the given frequency, temperature, incoming angles and element.
\<close>

definition get_submatrix_4_5 ::
  "'a tensor7 \<Rightarrow> nat \<Rightarrow> nat \<Rightarrow> nat \<Rightarrow> nat \<Rightarrow> nat \<Rightarrow> 'a list list" where
  "get_submatrix_4_5 d f t lo la e = map (map (\<lambda>v. v ! e)) (d ! f ! t ! lo ! la)"

section \<open>Store and field objects\<close>

text \<open>
  Grids and data tensors are held through shared pointers, so several fields can refer
  to one grid or one data tensor. The store maps an address to the vector or to the
  tensor that lives there; \<open>next_tensor\<close> is the address the next
  \<^verbatim>\<open>std::make_shared<DataTensor>\<close> returns. Vectors and tensors have different
  static types, so a grid pointer never aliases a tensor pointer.
\<close>

record 'd store =
  vectors :: "nat \<Rightarrow> real list"
  tensors :: "nat \<Rightarrow> 'd"
  next_tensor :: nat

text \<open>
  \<^verbatim>\<open>ScatteringDataFieldBase\<close>: the grid sizes and the particle type. A name
  cannot end in an underscore here, so the member \<^verbatim>\<open>n_freqs_\<close> is
  \<open>n_freqs\<close>, and so on for every member; \<^verbatim>\<open>type_\<close> is \<open>ptype\<close>.
\<close>

record ScatteringDataFieldBase =
  n_freqs :: nat
  n_temps :: nat
  n_lon_inc :: nat
  n_lat_inc :: nat
  n_lon_scat :: nat
  n_lat_scat :: nat
  ptype :: ParticleType

text \<open>
  The members that the three field classes declare alike: pointers to the frequency,
  temperature and incoming-angle grids and to the data tensor.
\<close>

record ScatteringDataField = ScatteringDataFieldBase +
  f_grid :: nat
  t_grid :: nat
  lon_inc :: nat
  lat_inc :: nat
  data :: nat

text \<open>\<^verbatim>\<open>ScatteringDataFieldGridded\<close> adds the pointers to the scattering-angle grids.\<close>

record ScatteringDataFieldGridded = ScatteringDataField +
  lon_scat :: nat
  lat_scat :: nat

section \<open>Gridded format: integration and normalization\<close>

text \<open>
  \<^verbatim>\<open>ScatteringDataFieldGridded::integrate_scattering_angles\<close>. The loop over
  \<^verbatim>\<open>DimensionCounter<5>\<close> visits every coordinate below the five dimensions once
  and stores one value there. \<^verbatim>\<open>integrate_angles\<close> is not part of the sources at
  hand; it is the parameter \<open>ia\<close>, applied to the sub-matrix, the scattering
  azimuth grid and the colatitudes \<open>- cos\<close> of the scattering zenith grid.
\<close>

definition Gridded_integrate_scattering_angles ::
  "(real list list \<Rightarrow> real list \<Rightarrow> real list \<Rightarrow> real) \<Rightarrow> real tensor7 store \<Rightarrow>
   'x ScatteringDataFieldGridded_scheme \<Rightarrow> real tensor5" where
  "Gridded_integrate_scattering_angles ia h this =
     (let d = tensors h (data this);
          longitudes = vectors h (lon_scat this);
          colatitudes = map (\<lambda>x. - cos x) (vectors h (lat_scat this))
      in map (\<lambda>f. map (\<lambda>t. map (\<lambda>lo. map (\<lambda>la. map (\<lambda>e.
             ia (get_submatrix_4_5 d f t lo la e) longitudes colatitudes)
           [0..<dimension_6 d]) [0..<n_lat_inc this]) [0..<n_lon_inc this])
           [0..<n_temps this]) [0..<n_freqs this])"

text \<open>
  \<^verbatim>\<open>matrix *= c\<close> on the sub-matrix of element \<open>j\<close> inside the
  (scattering azimuth, scattering zenith, element) block of one outer coordinate.
  \<open>fmul\<close> is the multiplication of \<^verbatim>\<open>Scalar\<close>, which rounds; nothing is
  assumed of it.
\<close>

definition scale_submatrix ::
  "(real \<Rightarrow> real \<Rightarrow> real) \<Rightarrow> nat \<Rightarrow> real \<Rightarrow> real list list list \<Rightarrow> real list list list" where
  "scale_submatrix fmul j c block = map (map (\<lambda>v. v[j := fmul (v ! j) c])) block"

text \<open>
  The body of the outer loop of \<^verbatim>\<open>normalize\<close> at one (frequency, temperature,
  incoming azimuth, incoming zenith) coordinate: the inner loop runs over the elements
  \<open>j\<close>, and scales the sub-matrix of \<open>j\<close> by \<^verbatim>\<open>value / integral\<close> unless
  the integral of element 0 is zero. \<open>fdiv\<close> is the division of \<^verbatim>\<open>Scalar\<close>,
  which rounds and can overflow; nothing is assumed of it.
\<close>

definition normalize_block ::
  "(real \<Rightarrow> real \<Rightarrow> real) \<Rightarrow> (real \<Rightarrow> real \<Rightarrow> real) \<Rightarrow> real \<Rightarrow> real \<Rightarrow> nat \<Rightarrow>
   real list list list \<Rightarrow> real list list list" where
  "normalize_block fdiv fmul v integral n block =
     fold (\<lambda>j b. if integral \<noteq> 0 then scale_submatrix fmul j (fdiv v integral) b else b)
       [0..<n] block"

text \<open>
  \<^verbatim>\<open>ScatteringDataFieldGridded::normalize\<close>. The integrals are computed once,
  before the loop; each iteration of the outer loop writes only the block of its own
  coordinate, so the in-place loop is a map over the coordinates. The result is
  written through \<^verbatim>\<open>data_\<close>.
\<close>

definition Gridded_normalize ::
  "(real list list \<Rightarrow> real list \<Rightarrow> real list \<Rightarrow> real) \<Rightarrow>
   (real \<Rightarrow> real \<Rightarrow> real) \<Rightarrow> (real \<Rightarrow> real \<Rightarrow> real) \<Rightarrow> real \<Rightarrow> real tensor7 store \<Rightarrow>
   'x ScatteringDataFieldGridded_scheme \<Rightarrow> real tensor7 store" where
  "Gridded_normalize ia fdiv fmul v h this =
     (let integrals = Gridded_integrate_scattering_angles ia h this;
          d = tensors h (data this);
          d' = map (\<lambda>f. map (\<lambda>t. map (\<lambda>lo. map (\<lambda>la.
                 normalize_block fdiv fmul v (integrals ! f ! t ! lo ! la ! 0) (dimension_6 d)
                   (d ! f ! t ! lo ! la))
               [0..<n_lat_inc this]) [0..<n_lon_inc this])
               [0..<n_temps this]) [0..<n_freqs this]
      in h\<lparr>tensors := (tensors h)(data this := d')\<rparr>)"


section \<open>Spectral format\<close>

text \<open>
  Modelled from the spec: the harmonics transform \<^verbatim>\<open>sht::SHT\<close>, whose class is not
  part of the sources at hand. A transform is identified by its truncation, the
  maximum degree \<open>l_max\<close> and the maximum order \<open>m_max\<close>, and by the sizes of
  the angular grid it was derived from. It is never changed after construction, so a
  field holds it by value here.
\<close>

record SHT =
  l_max :: nat
  m_max :: nat
  n_lon :: nat
  n_lat :: nat

text \<open>
  \<^verbatim>\<open>ScatteringDataFieldSpectral\<close>: the common members and the transform of the
  scattering angles. The data tensor has rank 6 and complex entries; its axes are
  frequency, temperature, incoming azimuth, incoming zenith, spectral coefficient and
  element.
\<close>

record ScatteringDataFieldSpectral = ScatteringDataField +
  sht_scat :: SHT

text \<open>
  \<^verbatim>\<open>ScatteringDataFieldSpectral::integrate_scattering_angles\<close>:
  \<^verbatim>\<open>data_->chip<4>(0)\<close> is the rank-5 tensor at offset 0 of the coefficient axis;
  the result is its real part times \<^verbatim>\<open>sqrt(4.0 * M_PI)\<close>, entry by entry.
\<close>

definition Spectral_integrate_scattering_angles ::
  "complex tensor6 store \<Rightarrow> 'x ScatteringDataFieldSpectral_scheme \<Rightarrow> real tensor5" where
  "Spectral_integrate_scattering_angles h this =
     map (map (map (map (\<lambda>coeffs. map (\<lambda>c. Re c * sqrt (4 * pi)) (coeffs ! 0)))))
       (tensors h (data this))"

text \<open>
  A small spectral field in a store: one frequency, temperature and incoming angle,
  two spectral coefficients and two elements.
\<close>

definition example_spectral_store :: "complex tensor6 store" where
  "example_spectral_store =
     \<lparr>vectors = (\<lambda>a. [0]),
      tensors = (\<lambda>a. [[[[ [[Complex 3 4, Complex 1 2], [Complex 5 6, Complex 7 8]] ]]]]),
      next_tensor = 1\<rparr>"

definition example_spectral :: ScatteringDataFieldSpectral where
  "example_spectral =
     \<lparr>n_freqs = 1, n_temps = 1, n_lon_inc = 1, n_lat_inc = 1, n_lon_scat = 1, n_lat_scat = 2,
      ptype = Random, f_grid = 0, t_grid = 1, lon_inc = 2, lat_inc = 3, data = 0,
      sht_scat = \<lparr>l_max = 1, m_max = 0, n_lon = 1, n_lat = 2\<rparr>\<rparr>"

section \<open>Gridded format: resizing the element axis\<close>

text \<open>\<^verbatim>\<open>data_->dimensions()\<close> of a rank-7 tensor, outermost axis first.\<close>

definition dimensions7 :: "'a tensor7 \<Rightarrow> nat list" where
  "dimensions7 d =
     [length d, length (first d), length (first (first d)),
      length (first (first (first d))), length (first (first (first (first d)))),
      length (first (first (first (first (first d))))), dimension_6 d]"

text \<open>
  Modelled from the spec: the tensor that \<^verbatim>\<open>std::make_shared<DataTensor>(dims)\<close>
  builds from its dimensions. The tensor class is not part of the sources at hand; the
  specification has a tensor created from its sizes zero-filled.
\<close>

definition zeros7 :: "nat list \<Rightarrow> real tensor7" where
  "zeros7 dims =
     replicate (dims ! 0) (replicate (dims ! 1) (replicate (dims ! 2) (replicate (dims ! 3)
       (replicate (dims ! 4) (replicate (dims ! 5) (replicate (dims ! 6) 0))))))"

text \<open>
  Modelled from the spec: \<^verbatim>\<open>eigen::copy(dest, source)\<close>, which the sources at hand
  call but do not contain. Resizing truncates and preserves the matching prefix: every
  coordinate that lies inside both tensors receives the entry of the source, every
  other entry of the destination stays. \<open>copy_axis\<close> does this along one axis,
  with \<open>inner\<close> for the axes below.
\<close>

definition copy_axis :: "('a \<Rightarrow> 'a \<Rightarrow> 'a) \<Rightarrow> 'a list \<Rightarrow> 'a list \<Rightarrow> 'a list" where
  "copy_axis inner dest source =
     map (\<lambda>i. if i < length source then inner (dest ! i) (source ! i) else dest ! i)
       [0..<length dest]"

definition copy7 :: "'a tensor7 \<Rightarrow> 'a tensor7 \<Rightarrow> 'a tensor7" where
  "copy7 dest source =
     copy_axis (copy_axis (copy_axis (copy_axis (copy_axis (copy_axis (copy_axis
       (\<lambda>d s. s))))))) dest source"

text \<open>
  \<^verbatim>\<open>ScatteringDataFieldGridded::set_number_of_scattering_coeffs\<close>. When the element
  axis already has length \<open>n\<close> nothing happens. Otherwise a new tensor is
  allocated with the old dimensions, except \<open>n\<close> on the element axis, the old
  data are copied into it, and \<^verbatim>\<open>data_\<close> is set to point to it. \<^verbatim>\<open>Index\<close>
  values are sizes here, so \<open>n\<close> is a natural number.
\<close>

definition Gridded_set_number_of_scattering_coeffs ::
  "nat \<Rightarrow> real tensor7 store \<Rightarrow> 'x ScatteringDataFieldGridded_scheme \<Rightarrow>
   real tensor7 store \<times> 'x ScatteringDataFieldGridded_scheme" where
  "Gridded_set_number_of_scattering_coeffs n h this =
     (let current_stokes_dim = dimension_6 (tensors h (data this))
      in if current_stokes_dim = n then (h, this)
         else
           (let new_dimensions = (dimensions7 (tensors h (data this)))[6 := n];
                data_new = next_tensor h;
                h1 = h\<lparr>tensors := (tensors h)(data_new := zeros7 new_dimensions),
                       next_tensor := Suc data_new\<rparr>;
                h2 = h1\<lparr>tensors := (tensors h1)
                       (data_new := copy7 (tensors h1 data_new) (tensors h1 (data this)))\<rparr>
            in (h2, this\<lparr>data := data_new\<rparr>)))"

text \<open>
  A gridded field with two elements: one frequency, temperature and incoming angle,
  one scattering azimuth and two scattering zeniths.
\<close>

definition example_store2 :: "real tensor7 store" where
  "example_store2 =
     \<lparr>vectors = (\<lambda>a. if a = 5 then [0, pi] else [0]),
      tensors = (\<lambda>a. [[[[ [[[1, 2], [3, 4]]] ]]]]),
      next_tensor = 1\<rparr>"

definition example_gridded2 :: ScatteringDataFieldGridded where
  "example_gridded2 =
     \<lparr>n_freqs = 1, n_temps = 1, n_lon_inc = 1, n_lat_inc = 1, n_lon_scat = 1, n_lat_scat = 2,
      ptype = Random, f_grid = 0, t_grid = 1, lon_inc = 2, lat_inc = 3, data = 0,
      lon_scat = 4, lat_scat = 5\<rparr>"

section \<open>Gridded format: setting the data of one frequency and temperature\<close>

datatype error = DimensionMismatch

text \<open>The dimensions of a rank-5 sub-tensor, outermost axis first.\<close>

definition dimensions5 :: "'a tensor5 \<Rightarrow> nat list" where
  "dimensions5 d =
     [length d, length (first d), length (first (first d)),
      length (first (first (first d))), length (first (first (first (first d))))]"

text \<open>
  Modelled from the spec: the assignment
  \<^verbatim>\<open>eigen::tensor_index(a, {f, t}) = eigen::tensor_index(b, {0, 0})\<close> of one sub-tensor
  view to another. Neither \<^verbatim>\<open>eigen::tensor_index\<close> nor the tensor class is part of
  the sources at hand. By the specification the sub-tensor at the given outer
  coordinates is overwritten, and operands whose axis sizes are incompatible are a
  dimension mismatch, fatal and surfaced at once, never truncated silently. The
  function takes the source sub-tensor already extracted.
\<close>

definition tensor_index_assign ::
  "'a tensor7 \<Rightarrow> nat \<Rightarrow> nat \<Rightarrow> 'a tensor5 \<Rightarrow> error + 'a tensor7" where
  "tensor_index_assign d f t src =
     (if dimensions5 (d ! f ! t) = dimensions5 src
      then Inr (d[f := (d ! f)[t := src]])
      else Inl DimensionMismatch)"

text \<open>
  \<^verbatim>\<open>ScatteringDataFieldGridded::set_data\<close>. The class \<^verbatim>\<open>RegularRegridder\<close> is not
  part of the sources at hand; \<open>regrid axes old new\<close> stands for the regridder
  built for the given axes from the old and the new grids, applied to a tensor. The
  data of \<open>other\<close> are regridded along the four angular axes to the angular grids
  of this field, and the result at index (0, 0) is assigned to the sub-tensor at the
  given frequency and temperature index. A failure leaves the store as it was: only a
  successful call returns a new store.
\<close>

definition Gridded_set_data ::
  "(nat list \<Rightarrow> real list list \<Rightarrow> real list list \<Rightarrow> real tensor7 \<Rightarrow> real tensor7) \<Rightarrow>
   nat \<Rightarrow> nat \<Rightarrow> 'y ScatteringDataFieldGridded_scheme \<Rightarrow> real tensor7 store \<Rightarrow>
   'x ScatteringDataFieldGridded_scheme \<Rightarrow> error + real tensor7 store" where
  "Gridded_set_data regrid frequency_index temperature_index other h this =
     (let regridded = regrid [2, 3, 4, 5]
            [vectors h (lon_inc other), vectors h (lat_inc other),
             vectors h (lon_scat other), vectors h (lat_scat other)]
            [vectors h (lon_inc this), vectors h (lat_inc this),
             vectors h (lon_scat this), vectors h (lat_scat this)]
            (tensors h (data other))
      in case tensor_index_assign (tensors h (data this)) frequency_index temperature_index
                (regridded ! 0 ! 0) of
           Inl e \<Rightarrow> Inl e
         | Inr d \<Rightarrow> Inr (h\<lparr>tensors := (tensors h)(data this := d)\<rparr>))"

text \<open>
  Modelled from the spec: regridding between identical grids is the identity. The
  example fields below share their grids, so this is the regridder of the examples.
\<close>

definition regrid_identical ::
  "nat list \<Rightarrow> real list list \<Rightarrow> real list list \<Rightarrow> 'a \<Rightarrow> 'a" where
  "regrid_identical axes old new d = d"

text \<open>
  A store with three data tensors on the same grids: one frequency, temperature and
  incoming angle, one scattering azimuth and two scattering zeniths. The tensors at
  addresses 0 and 2 have two elements, the tensor at address 1 has one.
\<close>

definition example_store3 :: "real tensor7 store" where
  "example_store3 =
     \<lparr>vectors = (\<lambda>a. if a = 5 then [0, pi] else [0]),
      tensors = (\<lambda>a. if a = 0 then [[[[ [[[1, 2], [3, 4]]] ]]]]
                      else if a = 1 then [[[[ [[[5], [6]]] ]]]]
                      else [[[[ [[[5, 6], [7, 8]]] ]]]]),
      next_tensor = 3\<rparr>"

definition example_other1 :: ScatteringDataFieldGridded where
  "example_other1 = example_gridded2\<lparr>data := 1\<rparr>"

definition example_other2 :: ScatteringDataFieldGridded where
  "example_other2 = example_gridded2\<lparr>data := 2\<rparr>"

section \<open>Spectral format: accumulation and change of truncation\<close>

text \<open>
  \<^verbatim>\<open>data_->dimension(5)\<close> and \<^verbatim>\<open>data_->dimensions()\<close> of a rank-6 tensor, the
  tensor of zeros that \<^verbatim>\<open>DataTensor(new_dimensions).setZero()\<close> builds, and
  rectangular rank-6 tensors.
\<close>

definition dimension_5 :: "'a tensor6 \<Rightarrow> nat" where
  "dimension_5 d = length (first (first (first (first (first d)))))"

definition dimensions6 :: "'a tensor6 \<Rightarrow> nat list" where
  "dimensions6 d =
     [length d, length (first d), length (first (first d)),
      length (first (first (first d))), length (first (first (first (first d)))),
      dimension_5 d]"

definition zeros6 :: "nat list \<Rightarrow> complex tensor6" where
  "zeros6 dims =
     replicate (dims ! 0) (replicate (dims ! 1) (replicate (dims ! 2) (replicate (dims ! 3)
       (replicate (dims ! 4) (replicate (dims ! 5) 0)))))"

definition has_dims6 ::
  "nat \<Rightarrow> nat \<Rightarrow> nat \<Rightarrow> nat \<Rightarrow> nat \<Rightarrow> nat \<Rightarrow> 'a tensor6 \<Rightarrow> bool" where
  "has_dims6 n0 n1 n2 n3 n4 n5 d =
     rect n0 (rect n1 (rect n2 (rect n3 (rect n4 (\<lambda>v. length v = n5))))) d"

text \<open>
  Modelled from the spec: the coefficient axis of a transform. The truncation bounds
  the expansion: there is one coefficient for every degree \<open>l\<close> and order
  \<open>m\<close> with \<open>m \<le> m_max\<close> and \<open>m \<le> l \<le> l_max\<close>, and the truncation
  determines the coefficient count. The coefficients are listed by order, then by
  degree; \<open>lm_index\<close> is the position of a coefficient on the axis, if it is
  present.
\<close>

definition lm_pairs :: "SHT \<Rightarrow> (nat \<times> nat) list" where
  "lm_pairs sht =
     concat (map (\<lambda>m. map (\<lambda>l. (l, m)) [m..<Suc (l_max sht)]) [0..<Suc (m_max sht)])"

definition get_n_spectral_coeffs :: "SHT \<Rightarrow> nat" where
  "get_n_spectral_coeffs sht = length (lm_pairs sht)"

fun index_in :: "'a list \<Rightarrow> 'a \<Rightarrow> nat option" where
  "index_in [] x = None"
| "index_in (y # ys) x = (if x = y then Some 0 else map_option Suc (index_in ys x))"

definition lm_index :: "SHT \<Rightarrow> nat \<Rightarrow> nat \<Rightarrow> nat option" where
  "lm_index sht l m = index_in (lm_pairs sht) (l, m)"

text \<open>
  Modelled from the spec: \<^verbatim>\<open>sht::SHT::add_coeffs(sht_l, v, sht_r, w)\<close>, the sum of
  two coefficient vectors of different truncations, which the sources at hand call
  but do not contain. The result has the truncation of the left operand, to whose
  sub-vector every caller assigns it. A coefficient present in both truncations is the
  sum of the two; a coefficient present only in the left one is copied through.
\<close>

definition add_coeffs :: "SHT \<Rightarrow> complex list \<Rightarrow> SHT \<Rightarrow> complex list \<Rightarrow> complex list" where
  "add_coeffs sht_l v sht_r w =
     map (\<lambda>i. v ! i + (case index_in (lm_pairs sht_r) (lm_pairs sht_l ! i) of
                          Some j \<Rightarrow> w ! j
                        | None \<Rightarrow> 0))
       [0..<get_n_spectral_coeffs sht_l]"

text \<open>
  \<^verbatim>\<open>eigen::get_subvector<4>(t, {f, t, lo, la, e})\<close> on a rank-6 tensor is the vector
  along the coefficient axis at the given coordinates. Inside the (coefficient,
  element) block of one outer coordinate, \<open>get_subvector e\<close> reads that vector
  and \<open>set_subvector e v\<close> assigns \<open>v\<close> to it.
\<close>

definition get_subvector :: "nat \<Rightarrow> 'a list list \<Rightarrow> 'a list" where
  "get_subvector e block = map (\<lambda>row. row ! e) block"

definition set_subvector :: "nat \<Rightarrow> 'a list \<Rightarrow> 'a list list \<Rightarrow> 'a list list" where
  "set_subvector e v block = map (\<lambda>k. (block ! k)[e := v ! k]) [0..<length block]"

text \<open>
  The loop of \<^verbatim>\<open>operator+=\<close> over the elements at one (frequency, temperature,
  incoming azimuth, incoming zenith) coordinate:
  \<^verbatim>\<open>result = sht::SHT::add_coeffs(*sht_scat_, in_l, *regridded.sht_scat_, in_r)\<close>
  where \<^verbatim>\<open>result\<close> and \<^verbatim>\<open>in_l\<close> are the sub-vector of this field and
  \<^verbatim>\<open>in_r\<close> is the sub-vector of the regridded operand.
\<close>

definition iadd_block ::
  "SHT \<Rightarrow> SHT \<Rightarrow> nat \<Rightarrow> complex list list \<Rightarrow> complex list list \<Rightarrow> complex list list" where
  "iadd_block sht_l sht_r n block_l block_r =
     fold (\<lambda>e b. set_subvector e
                   (add_coeffs sht_l (get_subvector e b) sht_r (get_subvector e block_r)) b)
       [0..<n] block_l"

text \<open>
  \<^verbatim>\<open>ScatteringDataFieldSpectral::operator+=\<close>. The operand is regridded along the
  frequency, temperature and incoming-angle axes to the grids of this field, by the
  regridder parameter as in \<^verbatim>\<open>set_data\<close>; the regridded field keeps the
  transform of the operand. The dimension counter runs over the grid sizes of this
  field and the element axis of its tensor; the result is written through
  \<^verbatim>\<open>data_\<close>.
\<close>

definition Spectral_iadd ::
  "(nat list \<Rightarrow> real list list \<Rightarrow> real list list \<Rightarrow> complex tensor6 \<Rightarrow> complex tensor6) \<Rightarrow>
   'y ScatteringDataFieldSpectral_scheme \<Rightarrow> complex tensor6 store \<Rightarrow>
   'x ScatteringDataFieldSpectral_scheme \<Rightarrow> complex tensor6 store" where
  "Spectral_iadd regrid other h this =
     (let regridded = regrid [0, 1, 2, 3]
            [vectors h (f_grid other), vectors h (t_grid other),
             vectors h (lon_inc other), vectors h (lat_inc other)]
            [vectors h (f_grid this), vectors h (t_grid this),
             vectors h (lon_inc this), vectors h (lat_inc this)]
            (tensors h (data other));
          d = tensors h (data this);
          d' = map (\<lambda>f. map (\<lambda>t. map (\<lambda>lo. map (\<lambda>la.
                 iadd_block (sht_scat this) (sht_scat other) (dimension_5 d)
                   (d ! f ! t ! lo ! la) (regridded ! f ! t ! lo ! la))
               [0..<n_lat_inc this]) [0..<n_lon_inc this])
               [0..<n_temps this]) [0..<n_freqs this]
      in h\<lparr>tensors := (tensors h)(data this := d')\<rparr>)"

text \<open>
  The constructor of \<^verbatim>\<open>ScatteringDataFieldSpectral\<close> from pointers to the grids, a
  transform and a pointer to the data: the base class receives the sizes of the grids
  and of the angular grid of the transform, and computes the particle type.
\<close>

definition Spectral_new ::
  "'d store \<Rightarrow> nat \<Rightarrow> nat \<Rightarrow> nat \<Rightarrow> nat \<Rightarrow> SHT \<Rightarrow> nat \<Rightarrow> ScatteringDataFieldSpectral" where
  "Spectral_new h f_grid_p t_grid_p lon_inc_p lat_inc_p sht data_p =
     \<lparr>n_freqs = length (vectors h f_grid_p),
      n_temps = length (vectors h t_grid_p),
      n_lon_inc = length (vectors h lon_inc_p),
      n_lat_inc = length (vectors h lat_inc_p),
      n_lon_scat = n_lon sht,
      n_lat_scat = n_lat sht,
      ptype = determine_type (int (length (vectors h lon_inc_p)))
                (int (length (vectors h lat_inc_p))) (int (n_lon sht)) (int (n_lat sht)),
      f_grid = f_grid_p, t_grid = t_grid_p, lon_inc = lon_inc_p, lat_inc = lat_inc_p,
      data = data_p, sht_scat = sht\<rparr>"

text \<open>
  \<^verbatim>\<open>ScatteringDataFieldSpectral::to_spectral(ShtPtr sht_other)\<close>: a zero tensor with
  the coefficient count of the new transform on the coefficient axis is allocated, a
  field on the grids of this field is built around it, and this field is accumulated
  into it. The result is the new store and the new field.
\<close>

definition Spectral_to_spectral ::
  "(nat list \<Rightarrow> real list list \<Rightarrow> real list list \<Rightarrow> complex tensor6 \<Rightarrow> complex tensor6) \<Rightarrow>
   SHT \<Rightarrow> complex tensor6 store \<Rightarrow> 'x ScatteringDataFieldSpectral_scheme \<Rightarrow>
   complex tensor6 store \<times> ScatteringDataFieldSpectral" where
  "Spectral_to_spectral regrid sht_other h this =
     (let new_dimensions = (dimensions6 (tensors h (data this)))
                             [4 := get_n_spectral_coeffs sht_other];
          data_new = next_tensor h;
          h1 = h\<lparr>tensors := (tensors h)(data_new := zeros6 new_dimensions),
                 next_tensor := Suc data_new\<rparr>;
          result = Spectral_new h1 (f_grid this) (t_grid this) (lon_inc this) (lat_inc this)
                     sht_other data_new
      in (Spectral_iadd regrid this h1 result, result))"

text \<open>
  The invariant of the loop over the elements in \<open>iadd_block\<close>: the columns of
  the elements below \<open>j\<close> hold the sums, the other columns are as they were.
\<close>

definition iadd_inv ::
  "SHT \<Rightarrow> SHT \<Rightarrow> nat \<Rightarrow> complex list list \<Rightarrow> complex list list \<Rightarrow> nat \<Rightarrow> complex list list \<Rightarrow> bool" where
  "iadd_inv sl sr n bl br j b =
     (length b = length bl \<and>
      (\<forall>k<length bl. length (b ! k) = n \<and>
         (\<forall>e<n. b ! k ! e =
            (if e < j then add_coeffs sl (get_subvector e bl) sr (get_subvector e br) ! k
             else bl ! k ! e))))"

section \<open>The other mutating operations\<close>

text \<open>\<^verbatim>\<open>ScatteringDataFieldBase::get_particle_type\<close>.\<close>

definition get_particle_type :: "'x ScatteringDataFieldBase_scheme \<Rightarrow> ParticleType" where
  "get_particle_type this = ptype this"

subsection \<open>Gridded format\<close>

text \<open>
  \<^verbatim>\<open>ScatteringDataFieldGridded::operator+=\<close>: the operand is regridded along all six
  grid axes to the grids of this field, and its data are added to \<^verbatim>\<open>*data_\<close>
  entry by entry.
\<close>

definition add7 :: "real tensor7 \<Rightarrow> real tensor7 \<Rightarrow> real tensor7" where
  "add7 a b = map2 (map2 (map2 (map2 (map2 (map2 (map2 (+))))))) a b"

definition Gridded_iadd ::
  "(nat list \<Rightarrow> real list list \<Rightarrow> real list list \<Rightarrow> real tensor7 \<Rightarrow> real tensor7) \<Rightarrow>
   'y ScatteringDataFieldGridded_scheme \<Rightarrow> real tensor7 store \<Rightarrow>
   'x ScatteringDataFieldGridded_scheme \<Rightarrow> real tensor7 store" where
  "Gridded_iadd regrid other h this =
     (let regridded = regrid [0, 1, 2, 3, 4, 5]
            [vectors h (f_grid other), vectors h (t_grid other),
             vectors h (lon_inc other), vectors h (lat_inc other),
             vectors h (lon_scat other), vectors h (lat_scat other)]
            [vectors h (f_grid this), vectors h (t_grid this),
             vectors h (lon_inc this), vectors h (lat_inc this),
             vectors h (lon_scat this), vectors h (lat_scat this)]
            (tensors h (data other))
      in h\<lparr>tensors := (tensors h)(data this := add7 (tensors h (data this)) regridded)\<rparr>)"

text \<open>\<^verbatim>\<open>ScatteringDataFieldGridded::operator*=\<close>: \<^verbatim>\<open>(*data_) = c * (*data_)\<close>.\<close>

definition Gridded_imul ::
  "real \<Rightarrow> real tensor7 store \<Rightarrow> 'x ScatteringDataFieldGridded_scheme \<Rightarrow> real tensor7 store" where
  "Gridded_imul c h this =
     h\<lparr>tensors := (tensors h)(data this :=
          map (map (map (map (map (map (map (\<lambda>x. c * x))))))) (tensors h (data this)))\<rparr>"

subsection \<open>Spectral format\<close>

text \<open>
  \<^verbatim>\<open>ScatteringDataFieldSpectral::normalize\<close>: at every (frequency, temperature,
  incoming azimuth, incoming zenith) coordinate the whole (coefficient, element) block
  is scaled by \<open>value / integral\<close> unless the integral of element 0 is zero.
\<close>

definition Spectral_normalize ::
  "real \<Rightarrow> complex tensor6 store \<Rightarrow> 'x ScatteringDataFieldSpectral_scheme \<Rightarrow> complex tensor6 store" where
  "Spectral_normalize v h this =
     (let integrals = Spectral_integrate_scattering_angles h this;
          d = tensors h (data this);
          d' = map (\<lambda>f. map (\<lambda>t. map (\<lambda>lo. map (\<lambda>la.
                 (let integral = integrals ! f ! t ! lo ! la ! 0
                  in if integral \<noteq> 0
                     then map (map (\<lambda>x. x * complex_of_real (v / integral))) (d ! f ! t ! lo ! la)
                     else d ! f ! t ! lo ! la))
               [0..<n_lat_inc this]) [0..<n_lon_inc this])
               [0..<n_temps this]) [0..<n_freqs this]
      in h\<lparr>tensors := (tensors h)(data this := d')\<rparr>)"

text \<open>\<^verbatim>\<open>ScatteringDataFieldSpectral::operator*=\<close>.\<close>

definition Spectral_imul ::
  "real \<Rightarrow> complex tensor6 store \<Rightarrow> 'x ScatteringDataFieldSpectral_scheme \<Rightarrow> complex tensor6 store" where
  "Spectral_imul c h this =
     h\<lparr>tensors := (tensors h)(data this :=
          map (map (map (map (map (map (\<lambda>x. complex_of_real c * x)))))) (tensors h (data this)))\<rparr>"

text \<open>
  \<^verbatim>\<open>ScatteringDataFieldSpectral::set_number_of_scattering_coeffs\<close>, as for the
  gridded format, on the element axis 5 of the rank-6 tensor.
\<close>

definition copy6 :: "'a tensor6 \<Rightarrow> 'a tensor6 \<Rightarrow> 'a tensor6" where
  "copy6 dest source =
     copy_axis (copy_axis (copy_axis (copy_axis (copy_axis (copy_axis
       (\<lambda>d s. s)))))) dest source"

definition Spectral_set_number_of_scattering_coeffs ::
  "nat \<Rightarrow> complex tensor6 store \<Rightarrow> 'x ScatteringDataFieldSpectral_scheme \<Rightarrow>
   complex tensor6 store \<times> 'x ScatteringDataFieldSpectral_scheme" where
  "Spectral_set_number_of_scattering_coeffs n h this =
     (let current_stokes_dim = dimension_5 (tensors h (data this))
      in if current_stokes_dim = n then (h, this)
         else
           (let new_dimensions = (dimensions6 (tensors h (data this)))[5 := n];
                data_new = next_tensor h;
                h1 = h\<lparr>tensors := (tensors h)(data_new := zeros6 new_dimensions),
                       next_tensor := Suc data_new\<rparr>;
                h2 = h1\<lparr>tensors := (tensors h1)
                       (data_new := copy6 (tensors h1 data_new) (tensors h1 (data this)))\<rparr>
            in (h2, this\<lparr>data := data_new\<rparr>)))"

subsection \<open>Fully spectral format\<close>

text \<open>
  \<^verbatim>\<open>ScatteringDataFieldFullySpectral\<close>: the transform of the incoming angles and
  the transform of the scattering angles; the incoming-angle grid pointers are
  declared and never set. The data tensor has rank 5 and complex entries; its axes
  are frequency, temperature, incoming coefficient, scattering coefficient and
  element.
\<close>

record ScatteringDataFieldFullySpectral = ScatteringDataFieldSpectral +
  sht_inc :: SHT

definition dimension_4 :: "'a tensor5 \<Rightarrow> nat" where
  "dimension_4 d = length (first (first (first (first d))))"

definition zeros5 :: "nat list \<Rightarrow> complex tensor5" where
  "zeros5 dims =
     replicate (dims ! 0) (replicate (dims ! 1) (replicate (dims ! 2) (replicate (dims ! 3)
       (replicate (dims ! 4) 0))))"

definition copy5 :: "'a tensor5 \<Rightarrow> 'a tensor5 \<Rightarrow> 'a tensor5" where
  "copy5 dest source =
     copy_axis (copy_axis (copy_axis (copy_axis (copy_axis (\<lambda>d s. s))))) dest source"

text \<open>
  \<^verbatim>\<open>eigen::get_submatrix<2, 3>(t, {f, t, e})\<close> on a rank-5 tensor is the matrix
  over the two coefficient axes at the given coordinates. Inside the (incoming
  coefficient, scattering coefficient, element) block of one frequency and
  temperature, \<open>get_submatrix_2_3 e\<close> reads that matrix and
  \<open>set_submatrix_2_3 e m\<close> assigns \<open>m\<close> to it.
\<close>

definition get_submatrix_2_3 :: "nat \<Rightarrow> 'a list list list \<Rightarrow> 'a list list" where
  "get_submatrix_2_3 e block = map (map (\<lambda>v. v ! e)) block"

definition set_submatrix_2_3 :: "nat \<Rightarrow> 'a list list \<Rightarrow> 'a list list list \<Rightarrow> 'a list list list" where
  "set_submatrix_2_3 e m block =
     map (\<lambda>i. map (\<lambda>j. (block ! i ! j)[e := m ! i ! j]) [0..<length (block ! i)])
       [0..<length block]"

text \<open>
  \<^verbatim>\<open>ScatteringDataFieldFullySpectral::operator+=\<close>: the operand is regridded along
  the frequency and temperature axes, and at every (frequency, temperature, element)
  coordinate the coefficient matrix becomes the sum of the two coefficient matrices.
  The six-argument \<^verbatim>\<open>sht::SHT::add_coeffs\<close> is not part of the sources at hand; it
  is the parameter \<open>add_coeffs2\<close>.
\<close>

definition FullySpectral_iadd ::
  "(nat list \<Rightarrow> real list list \<Rightarrow> real list list \<Rightarrow> complex tensor5 \<Rightarrow> complex tensor5) \<Rightarrow>
   (SHT \<Rightarrow> SHT \<Rightarrow> complex list list \<Rightarrow> SHT \<Rightarrow> SHT \<Rightarrow> complex list list \<Rightarrow> complex list list) \<Rightarrow>
   'y ScatteringDataFieldFullySpectral_scheme \<Rightarrow> complex tensor5 store \<Rightarrow>
   'x ScatteringDataFieldFullySpectral_scheme \<Rightarrow> complex tensor5 store" where
  "FullySpectral_iadd regrid add_coeffs2 other h this =
     (let regridded = regrid [0, 1]
            [vectors h (f_grid other), vectors h (t_grid other)]
            [vectors h (f_grid this), vectors h (t_grid this)]
            (tensors h (data other));
          d = tensors h (data this);
          d' = map (\<lambda>f. map (\<lambda>t.
                 fold (\<lambda>e b. set_submatrix_2_3 e
                         (add_coeffs2 (sht_inc this) (sht_scat this) (get_submatrix_2_3 e b)
                            (sht_inc other) (sht_scat other)
                            (get_submatrix_2_3 e (regridded ! f ! t))) b)
                   [0..<dimension_4 d] (d ! f ! t))
               [0..<n_temps this]) [0..<n_freqs this]
      in h\<lparr>tensors := (tensors h)(data this := d')\<rparr>)"

text \<open>\<^verbatim>\<open>ScatteringDataFieldFullySpectral::operator*=\<close>.\<close>

definition FullySpectral_imul ::
  "real \<Rightarrow> complex tensor5 store \<Rightarrow> 'x ScatteringDataFieldFullySpectral_scheme \<Rightarrow>
   complex tensor5 store" where
  "FullySpectral_imul c h this =
     h\<lparr>tensors := (tensors h)(data this :=
          map (map (map (map (map (\<lambda>x. complex_of_real c * x))))) (tensors h (data this)))\<rparr>"

text \<open>
  \<^verbatim>\<open>ScatteringDataFieldFullySpectral::set_number_of_scattering_coeffs\<close>, on the
  element axis 4 of the rank-5 tensor.
\<close>

definition FullySpectral_set_number_of_scattering_coeffs ::
  "nat \<Rightarrow> complex tensor5 store \<Rightarrow> 'x ScatteringDataFieldFullySpectral_scheme \<Rightarrow>
   complex tensor5 store \<times> 'x ScatteringDataFieldFullySpectral_scheme" where
  "FullySpectral_set_number_of_scattering_coeffs n h this =
     (let current_stokes_dim = dimension_4 (tensors h (data this))
      in if current_stokes_dim = n then (h, this)
         else
           (let new_dimensions = (dimensions5 (tensors h (data this)))[4 := n];
                data_new = next_tensor h;
                h1 = h\<lparr>tensors := (tensors h)(data_new := zeros5 new_dimensions),
                       next_tensor := Suc data_new\<rparr>;
                h2 = h1\<lparr>tensors := (tensors h1)
                       (data_new := copy5 (tensors h1 data_new) (tensors h1 (data this)))\<rparr>
            in (h2, this\<lparr>data := data_new\<rparr>)))"

subsection \<open>The grids of a field\<close>

text \<open>
  The six grids of a field as its getters return them. A gridded field reads all six
  through its pointers. A spectral field reads four through its pointers and takes
  the scattering-angle grids from its transform; a fully spectral field reads the
  frequency and temperature grids through its pointers and takes the angular grids
  from its two transforms.
\<close>

definition Gridded_grids ::
  "'d store \<Rightarrow> 'x ScatteringDataFieldGridded_scheme \<Rightarrow> real list list" where
  "Gridded_grids h this =
     [vectors h (f_grid this), vectors h (t_grid this), vectors h (lon_inc this),
      vectors h (lat_inc this), vectors h (lon_scat this), vectors h (lat_scat this)]"

definition Spectral_grids ::
  "'d store \<Rightarrow> 'x ScatteringDataFieldSpectral_scheme \<Rightarrow> real list list \<times> SHT" where
  "Spectral_grids h this =
     ([vectors h (f_grid this), vectors h (t_grid this), vectors h (lon_inc this),
       vectors h (lat_inc this)], sht_scat this)"

definition FullySpectral_grids ::
  "'d store \<Rightarrow> 'x ScatteringDataFieldFullySpectral_scheme \<Rightarrow> real list list \<times> SHT \<times> SHT" where
  "FullySpectral_grids h this =
     ([vectors h (f_grid this), vectors h (t_grid this)], sht_inc this, sht_scat this)"

section \<open>Gauss-Legendre quadrature\<close>

text \<open>
  \<^verbatim>\<open>detail::Precision<Scalar>::value\<close>: the type trait with its two
  specializations. The scalar types are the three instances the trait distinguishes;
  arithmetic itself is exact real arithmetic here, whatever the scalar type.
\<close>

datatype ScalarType = Float | Double | LongDouble

definition Precision_value :: "ScalarType \<Rightarrow> real" where
  "Precision_value sc =
     (case sc of Float \<Rightarrow> 1 / 10 ^ 6 | LongDouble \<Rightarrow> 1 / 10 ^ 19 | Double \<Rightarrow> 1 / 10 ^ 16)"

definition n_max_iter :: nat where
  "n_max_iter = 10"

text \<open>
  The initial guess for node \<open>i\<close> of degree \<open>n\<close>, with \<^verbatim>\<open>M_PI\<close> read as
  \<open>pi\<close>: \<^verbatim>\<open>p_l = M_PI; p_l_1 = 2 * n;
  x = -(1.0 - (n - 1) / (p_l_1 * p_l_1 * p_l_1)) * cos((p_l * (4 * i - 1)) / (4 * n + 2))\<close>.
\<close>

definition initial_guess :: "nat \<Rightarrow> nat \<Rightarrow> real" where
  "initial_guess n i =
     (let p_l = pi; p_l_1 = 2 * real n
      in - (1 - (real n - 1) / (p_l_1 * p_l_1 * p_l_1))
           * cos ((p_l * (4 * real i - 1)) / (4 * real n + 2)))"

text \<open>
  The Legendre recurrence: the loop \<^verbatim>\<open>for (int l = 2; l <= n; ++l)\<close> started from
  \<^verbatim>\<open>p_l = x; p_l_1 = 1.0\<close>. The state is the pair \<open>(p_l, p_l_1)\<close>; the old
  \<^verbatim>\<open>p_l_1\<close> is the \<^verbatim>\<open>p_l_2\<close> of the step.
\<close>

definition legendre_step :: "real \<Rightarrow> nat \<Rightarrow> real \<times> real \<Rightarrow> real \<times> real" where
  "legendre_step x l s =
     (case s of (p_l, p_l_1) \<Rightarrow>
        (((2 * real l - 1) * x * p_l - (real l - 1) * p_l_1) / real l, p_l))"

definition legendre :: "nat \<Rightarrow> real \<Rightarrow> real \<times> real" where
  "legendre n x = fold (legendre_step x) [2..<Suc n] (x, 1)"

text \<open>
  One pass through the body of the Newton loop at \<open>x\<close>: the new \<open>x\<close> and
  \<^verbatim>\<open>dp_dx\<close>.
\<close>

definition newton_step :: "nat \<Rightarrow> real \<Rightarrow> real \<times> real" where
  "newton_step n x =
     (case legendre n x of (p_l, p_l_1) \<Rightarrow>
        (let dp_dx = ((1 - x) * (1 + x)) / (real n * (p_l_1 - x * p_l))
         in (x - p_l * dp_dx, dp_dx)))"

text \<open>
  The Newton loop \<^verbatim>\<open>for (int j = 0; j < n_max_iter; ++j)\<close> from iteration \<open>j\<close>
  on, with the current \<open>x\<close> and \<^verbatim>\<open>dp_dx\<close>. It leaves by \<^verbatim>\<open>break\<close> when
  \<^verbatim>\<open>dx < threshold\<close>, where \<^verbatim>\<open>dx = std::abs(x - x_old)\<close> and
  \<^verbatim>\<open>threshold = 0.5 * (x + x_old)\<close>. The result is the final \<open>x\<close>, the final
  \<^verbatim>\<open>dp_dx\<close> and the number of passes through the body that have been made.
\<close>

function newton :: "nat \<Rightarrow> nat \<Rightarrow> real \<Rightarrow> real \<Rightarrow> real \<times> real \<times> nat" where
  "newton n j x dp_dx =
     (if j < n_max_iter then
        (let x_old = x;
             x' = fst (newton_step n x);
             dp_dx' = snd (newton_step n x);
             dx = \<bar>x' - x_old\<bar>;
             threshold = 0.5 * (x' + x_old)
         in if dx < threshold then (x', dp_dx', Suc j)
            else newton n (Suc j) x' dp_dx')
      else (x, dp_dx, j))"
  by pat_completeness auto
termination
  by (relation "measure (\<lambda>(n, j, x, dp_dx). n_max_iter - j)") auto

declare newton.simps [simp del]

text \<open>
  The body of the loop over the nodes \<^verbatim>\<open>for (int i = 1; i <= n_half_nodes; ++i)\<close>,
  on the pair of the node and weight vectors. \<^verbatim>\<open>dp_dx\<close> has no value before the
  first pass of the Newton loop; \<open>u\<close> stands for it.
\<close>

definition node_step :: "nat \<Rightarrow> real \<Rightarrow> nat \<Rightarrow> real list \<times> real list \<Rightarrow> real list \<times> real list" where
  "node_step n u i s =
     (case s of (nodes, weights) \<Rightarrow>
        (let r = newton n 0 (initial_guess n i) u;
             x = fst r;
             dp_dx = fst (snd r);
             nodes1 = nodes[i - 1 := x];
             weights1 = weights[i - 1 := 2 * dp_dx * dp_dx / ((1 - x) * (1 + x))];
             nodes2 = nodes1[n - i := - x];
             weights2 = weights1[n - i := weights1 ! (i - 1)]
         in (nodes2, weights2)))"

text \<open>
  \<^verbatim>\<open>calculate_nodes_and_weights\<close> on the vectors the constructor has allocated.
  The precision of the scalar type is fetched, as in the source, and as in the source
  nothing reads it afterwards.
\<close>

definition calculate_nodes_and_weights ::
  "ScalarType \<Rightarrow> nat \<Rightarrow> real \<Rightarrow> real list \<times> real list \<Rightarrow> real list \<times> real list" where
  "calculate_nodes_and_weights sc n u s =
     (let n_half_nodes = (n + 1) div 2;
          precision = Precision_value sc
      in fold (node_step n u) [1..<Suc n_half_nodes] s)"

text \<open>
  The constructor \<^verbatim>\<open>GaussLegendreQuadrature(int degree)\<close>: two vectors of
  \<open>degree\<close> entries, then the computation. The degree is the size of the
  vectors, so it is a natural number. Nothing is said about the content of the
  vectors before the computation, which writes every entry; \<open>junk\<close> gives the
  content they happen to have.
\<close>

definition GaussLegendreQuadrature ::
  "ScalarType \<Rightarrow> nat \<Rightarrow> real \<Rightarrow> (nat \<Rightarrow> real) \<Rightarrow> real list \<times> real list" where
  "GaussLegendreQuadrature sc degree u junk =
     calculate_nodes_and_weights sc degree u (map junk [0..<degree], map junk [0..<degree])"

definition get_nodes :: "real list \<times> real list \<Rightarrow> real list" where
  "get_nodes q = fst q"

definition get_weights :: "real list \<times> real list \<Rightarrow> real list" where
  "get_weights q = snd q"

text \<open>
  The loop invariant of the loop over the nodes: the pairs of entries \<open>k\<close> and
  \<open>n - 1 - k\<close> with \<open>k\<close> below \<open>m\<close> mirror each other.
\<close>

definition sym_upto :: "nat \<Rightarrow> nat \<Rightarrow> real list \<times> real list \<Rightarrow> bool" where
  "sym_upto n m s = (\<forall>k<m. k \<noteq> n - 1 - k \<longrightarrow>
      fst s ! (n - 1 - k) = - fst s ! k \<and> snd s ! (n - 1 - k) = snd s ! k)"

section \<open>Rectangular tensors\<close>

lemma rect_nth: "rect n P xs \<Longrightarrow> i < n \<Longrightarrow> P (xs ! i)"
  by (simp add: rect_def list_all_length)

lemma rect_length: "rect n P xs \<Longrightarrow> length xs = n"
  by (simp add: rect_def)

lemma rect_first: "rect n P xs \<Longrightarrow> 0 < n \<Longrightarrow> P (first xs)"
  by (cases xs) (simp_all add: rect_def first_def)

lemma has_dims7_dimension_6:
  assumes "has_dims7 n0 n1 n2 n3 n4 n5 n6 d" "0 < n0" "0 < n1" "0 < n2" "0 < n3" "0 < n4" "0 < n5"
  shows "dimension_6 d = n6"
  using assms unfolding has_dims7_def dimension_6_def
  by (blast dest: rect_first)

section \<open>Integration of a spectral field\<close>

text \<open>
  C2: for a spectral field, \<^verbatim>\<open>integrate_scattering_angles()\<close> returns at every
  (frequency, temperature, incoming azimuth, incoming zenith, element) coordinate the
  real part of the spectral coefficient of index 0 at that coordinate, times the
  square root of \<open>4 * pi\<close>. The result has the shape of the data tensor without
  its coefficient axis, and it does not depend on the harmonics transform of the
  field: no synthesis takes place.
\<close>

theorem Spectral_integrate_scattering_angles_coeff0:
  assumes "f < length (tensors h (data this))"
    and "t < length (tensors h (data this) ! f)"
    and "lo < length (tensors h (data this) ! f ! t)"
    and "la < length (tensors h (data this) ! f ! t ! lo)"
    and "e < length (tensors h (data this) ! f ! t ! lo ! la ! 0)"
  shows "Spectral_integrate_scattering_angles h this ! f ! t ! lo ! la ! e
           = Re (tensors h (data this) ! f ! t ! lo ! la ! 0 ! e) * sqrt (4 * pi)
         \<and> length (Spectral_integrate_scattering_angles h this ! f ! t ! lo ! la)
           = length (tensors h (data this) ! f ! t ! lo ! la ! 0)
         \<and> Spectral_integrate_scattering_angles h (this\<lparr>sht_scat := s\<rparr>)
           = Spectral_integrate_scattering_angles h this"
  using assms by (simp add: Spectral_integrate_scattering_angles_def)

theorem Spectral_integrate_scattering_angles_coeff0_witness:
  "Spectral_integrate_scattering_angles example_spectral_store example_spectral ! 0 ! 0 ! 0 ! 0 ! 1
     = 1 * sqrt (4 * pi)
   \<and> Spectral_integrate_scattering_angles example_spectral_store example_spectral ! 0 ! 0 ! 0 ! 0 ! 0
     = 3 * sqrt (4 * pi)"
proof -
  have d: "tensors example_spectral_store (data example_spectral)
           = [[[[ [[Complex 3 4, Complex 1 2], [Complex 5 6, Complex 7 8]] ]]]]"
    by (simp add: example_spectral_store_def)
  show ?thesis
    using Spectral_integrate_scattering_angles_coeff0
            [of 0 example_spectral_store example_spectral 0 0 0 1]
          Spectral_integrate_scattering_angles_coeff0
            [of 0 example_spectral_store example_spectral 0 0 0 0]
    by (simp add: d)
qed
section \<open>Properties of the classification\<close>

text \<open>
  C3, as the code has it: the classification is \<open>Random\<close> exactly when the
  incoming azimuth, incoming zenith and scattering azimuth grids all have size 1; it is
  \<open>AzimuthallyRandom\<close> exactly when the incoming azimuth grid has size 1 and the
  incoming zenith and scattering azimuth grids do not both have size 1; it is
  \<open>General\<close> exactly when the incoming azimuth grid does not have size 1. The three
  examples of the specification classify as stated.
\<close>

theorem determine_type_cases:
  "(determine_type a b c d = Random) = (a = 1 \<and> b = 1 \<and> c = 1)
   \<and> (determine_type a b c d = AzimuthallyRandom) = (a = 1 \<and> \<not> (b = 1 \<and> c = 1))
   \<and> (determine_type a b c d = General) = (a \<noteq> 1)
   \<and> determine_type 1 1 1 5 = Random
   \<and> determine_type 1 3 4 5 = AzimuthallyRandom
   \<and> determine_type 2 3 4 5 = General"
  by (simp add: determine_type_def)

text \<open>
  C3, as the specification words it, fails: with grid sizes (1, 3, 1, 5) the scattering
  azimuth grid has size 1, not more, and the code still answers
  \<open>AzimuthallyRandom\<close>, where the specification's wording gives \<open>General\<close>.
\<close>

theorem determine_type_counterexample:
  "determine_type 1 3 1 5 = AzimuthallyRandom \<and> \<not> (1 < (1::int))
   \<and> determine_type 1 3 1 5 \<noteq> General"
  by (simp add: determine_type_def)


section \<open>Resizing the element axis of a gridded field\<close>


lemma copy_axis_replicate:
  assumes "length src = k" "\<And>s. s \<in> set src \<Longrightarrow> inner z s = g s"
  shows "copy_axis inner (replicate k z) src = map g src"
  using assms by (auto simp: copy_axis_def list_eq_iff_nth_eq)

lemma copy_vector_zeros:
  "copy_axis (\<lambda>d s. s) (replicate m (0::real)) v = take m v @ replicate (m - length v) 0"
  by (auto simp: copy_axis_def list_eq_iff_nth_eq nth_append)

lemma has_dims7_dimensions7:
  assumes "has_dims7 n0 n1 n2 n3 n4 n5 n6 d" "0 < n0" "0 < n1" "0 < n2" "0 < n3" "0 < n4" "0 < n5"
  shows "dimensions7 d = [n0, n1, n2, n3, n4, n5, n6]"
proof -
  have 0: "rect n0 (rect n1 (rect n2 (rect n3 (rect n4 (rect n5 (\<lambda>v. length v = n6)))))) d"
    using assms(1) by (simp add: has_dims7_def)
  note 1 = rect_first[OF 0 assms(2)]
  note 2 = rect_first[OF 1 assms(3)]
  note 3 = rect_first[OF 2 assms(4)]
  note 4 = rect_first[OF 3 assms(5)]
  note 5 = rect_first[OF 4 assms(6)]
  note 6 = rect_first[OF 5 assms(7)]
  show ?thesis
    unfolding dimensions7_def dimension_6_def
    using rect_length[OF 0] rect_length[OF 1] rect_length[OF 2] rect_length[OF 3]
      rect_length[OF 4] rect_length[OF 5] 6
    by simp
qed

lemma rect_set: "rect n P xs \<Longrightarrow> x \<in> set xs \<Longrightarrow> P x"
  by (simp add: rect_def list_all_iff)

lemma copy7_zeros7:
  assumes "has_dims7 n0 n1 n2 n3 n4 n5 n6 d"
  shows "copy7 (zeros7 [n0, n1, n2, n3, n4, n5, m]) d
         = map (map (map (map (map (map (\<lambda>v. take m v @ replicate (m - n6) 0)))))) d"
proof -
  have 0: "rect n0 (rect n1 (rect n2 (rect n3 (rect n4 (rect n5 (\<lambda>v. length v = n6)))))) d"
    using assms(1) by (simp add: has_dims7_def)
  have l6: "copy_axis (\<lambda>d s. s) (replicate m (0::real)) v = take m v @ replicate (m - n6) 0"
    if "length v = n6" for v using that by (simp add: copy_vector_zeros)
  have l5: "copy_axis (copy_axis (\<lambda>d s. s)) (replicate n5 (replicate m (0::real))) x
            = map (\<lambda>v. take m v @ replicate (m - n6) 0) x"
    if "rect n5 (\<lambda>v. length v = n6) x" for x
    using that by (intro copy_axis_replicate l6) (auto dest: rect_length rect_set)
  have l4: "copy_axis (copy_axis (copy_axis (\<lambda>d s. s)))
              (replicate n4 (replicate n5 (replicate m (0::real)))) x
            = map (map (\<lambda>v. take m v @ replicate (m - n6) 0)) x"
    if "rect n4 (rect n5 (\<lambda>v. length v = n6)) x" for x
    using that by (intro copy_axis_replicate l5) (auto dest: rect_length rect_set)
  have l3: "copy_axis (copy_axis (copy_axis (copy_axis (\<lambda>d s. s))))
              (replicate n3 (replicate n4 (replicate n5 (replicate m (0::real))))) x
            = map (map (map (\<lambda>v. take m v @ replicate (m - n6) 0))) x"
    if "rect n3 (rect n4 (rect n5 (\<lambda>v. length v = n6))) x" for x
    using that by (intro copy_axis_replicate l4) (auto dest: rect_length rect_set)
  have l2: "copy_axis (copy_axis (copy_axis (copy_axis (copy_axis (\<lambda>d s. s)))))
              (replicate n2 (replicate n3 (replicate n4 (replicate n5 (replicate m (0::real)))))) x
            = map (map (map (map (\<lambda>v. take m v @ replicate (m - n6) 0)))) x"
    if "rect n2 (rect n3 (rect n4 (rect n5 (\<lambda>v. length v = n6)))) x" for x
    using that by (intro copy_axis_replicate l3) (auto dest: rect_length rect_set)
  have l1: "copy_axis (copy_axis (copy_axis (copy_axis (copy_axis (copy_axis (\<lambda>d s. s))))))
              (replicate n1 (replicate n2 (replicate n3 (replicate n4 (replicate n5
                (replicate m (0::real))))))) x
            = map (map (map (map (map (\<lambda>v. take m v @ replicate (m - n6) 0))))) x"
    if "rect n1 (rect n2 (rect n3 (rect n4 (rect n5 (\<lambda>v. length v = n6))))) x" for x
    using that by (intro copy_axis_replicate l2) (auto dest: rect_length rect_set)
  show ?thesis
    unfolding copy7_def zeros7_def using 0
    by (simp, intro copy_axis_replicate l1) (auto dest: rect_length rect_set)
qed


lemma Gridded_set_number_data:
  assumes hd: "has_dims7 n0 n1 n2 n3 n4 n5 n (tensors h (data this))"
    and pos: "0 < n0" "0 < n1" "0 < n2" "0 < n3" "0 < n4" "0 < n5"
    and alloc: "data this < next_tensor h"
    and ne: "m \<noteq> n"
  shows "tensors (fst (Gridded_set_number_of_scattering_coeffs m h this))
           (data (snd (Gridded_set_number_of_scattering_coeffs m h this)))
         = map (map (map (map (map (map (\<lambda>v. take m v @ replicate (m - n) 0))))))
             (tensors h (data this))"
proof -
  have dim: "dimension_6 (tensors h (data this)) = n"
    using hd pos by (rule has_dims7_dimension_6)
  have dims: "(dimensions7 (tensors h (data this)))[6 := m] = [n0, n1, n2, n3, n4, n5, m]"
    using has_dims7_dimensions7[OF hd pos] by simp
  have "data this \<noteq> next_tensor h" using alloc by simp
  then show ?thesis
    using ne dim dims copy7_zeros7[OF hd, of m]
    by (simp add: Gridded_set_number_of_scattering_coeffs_def Let_def)
qed

lemma nth_map6:
  assumes "rect n0 (rect n1 (rect n2 (rect n3 (rect n4 (rect n5 P))))) d"
    and "f < n0" "t < n1" "a < n2" "b < n3" "c < n4" "e < n5"
  shows "map (map (map (map (map (map g))))) d ! f ! t ! a ! b ! c ! e = g (d ! f ! t ! a ! b ! c ! e)"
proof -
  note 1 = rect_nth[OF assms(1,2)]
  note 2 = rect_nth[OF 1 assms(3)]
  note 3 = rect_nth[OF 2 assms(4)]
  note 4 = rect_nth[OF 3 assms(5)]
  note 5 = rect_nth[OF 4 assms(6)]
  show ?thesis
    using assms(2-) rect_length[OF assms(1)] rect_length[OF 1] rect_length[OF 2]
      rect_length[OF 3] rect_length[OF 4] rect_length[OF 5]
    by simp
qed

lemma has_dims7_vector:
  assumes "has_dims7 n0 n1 n2 n3 n4 n5 n6 d"
    and "f < n0" "t < n1" "a < n2" "b < n3" "c < n4" "e < n5"
  shows "length (d ! f ! t ! a ! b ! c ! e) = n6"
  using assms unfolding has_dims7_def by (blast dest: rect_nth)

text \<open>
  C4: for a gridded field whose element axis has length \<open>n\<close>,
  \<^verbatim>\<open>set_number_of_scattering_coeffs(n + k)\<close> with \<open>k > 0\<close> leaves the first
  \<open>n\<close> elements at every coordinate as they were and sets the \<open>k\<close> new ones
  to zero; \<^verbatim>\<open>set_number_of_scattering_coeffs(n - k)\<close> with \<open>0 < k < n\<close> keeps
  exactly the first \<open>n - k\<close> elements; \<^verbatim>\<open>set_number_of_scattering_coeffs(n)\<close>
  changes neither the store nor the field. The grids are not empty and the data
  tensor of the field is allocated.
\<close>

theorem Gridded_set_number_of_scattering_coeffs_resize:
  assumes hd: "has_dims7 n0 n1 n2 n3 n4 n5 n (tensors h (data this))"
    and pos: "0 < n0" "0 < n1" "0 < n2" "0 < n3" "0 < n4" "0 < n5"
    and alloc: "data this < next_tensor h"
    and idx: "f < n0" "t < n1" "a < n2" "b < n3" "c < n4" "e < n5"
  shows "(0 < k \<longrightarrow>
            tensors (fst (Gridded_set_number_of_scattering_coeffs (n + k) h this))
              (data (snd (Gridded_set_number_of_scattering_coeffs (n + k) h this)))
              ! f ! t ! a ! b ! c ! e
            = tensors h (data this) ! f ! t ! a ! b ! c ! e @ replicate k 0)
       \<and> (0 < k \<and> k < n \<longrightarrow>
            tensors (fst (Gridded_set_number_of_scattering_coeffs (n - k) h this))
              (data (snd (Gridded_set_number_of_scattering_coeffs (n - k) h this)))
              ! f ! t ! a ! b ! c ! e
            = take (n - k) (tensors h (data this) ! f ! t ! a ! b ! c ! e))
       \<and> Gridded_set_number_of_scattering_coeffs n h this = (h, this)"
proof (intro conjI impI)
  let ?d = "tensors h (data this)"
  have r: "rect n0 (rect n1 (rect n2 (rect n3 (rect n4 (rect n5 (\<lambda>v. length v = n)))))) ?d"
    using hd by (simp add: has_dims7_def)
  have len: "length (?d ! f ! t ! a ! b ! c ! e) = n"
    using hd idx by (rule has_dims7_vector)
  {
    assume "0 < k"
    then have "n + k \<noteq> n" by simp
    from Gridded_set_number_data[OF hd pos alloc this]
    show "tensors (fst (Gridded_set_number_of_scattering_coeffs (n + k) h this))
              (data (snd (Gridded_set_number_of_scattering_coeffs (n + k) h this)))
              ! f ! t ! a ! b ! c ! e
            = ?d ! f ! t ! a ! b ! c ! e @ replicate k 0"
      using nth_map6[OF r idx, where g = "\<lambda>v. take (n + k) v @ replicate (n + k - n) 0"] len
      by simp
  }
  {
    assume "0 < k \<and> k < n"
    then have "n - k \<noteq> n" by arith
    from Gridded_set_number_data[OF hd pos alloc this]
    show "tensors (fst (Gridded_set_number_of_scattering_coeffs (n - k) h this))
              (data (snd (Gridded_set_number_of_scattering_coeffs (n - k) h this)))
              ! f ! t ! a ! b ! c ! e
            = take (n - k) (?d ! f ! t ! a ! b ! c ! e)"
      using nth_map6[OF r idx, where g = "\<lambda>v. take (n - k) v @ replicate (n - k - n) 0"] len
      by simp
  }
  have "dimension_6 ?d = n"
    using hd pos by (rule has_dims7_dimension_6)
  then show "Gridded_set_number_of_scattering_coeffs n h this = (h, this)"
    by (simp add: Gridded_set_number_of_scattering_coeffs_def)
qed

lemma example_gridded2_dims:
  "has_dims7 1 1 1 1 1 2 2 (tensors example_store2 (data example_gridded2))"
  by (simp add: example_store2_def has_dims7_def rect_def)

theorem Gridded_set_number_of_scattering_coeffs_resize_witness:
  "tensors (fst (Gridded_set_number_of_scattering_coeffs 3 example_store2 example_gridded2))
     (data (snd (Gridded_set_number_of_scattering_coeffs 3 example_store2 example_gridded2)))
     ! 0 ! 0 ! 0 ! 0 ! 0 ! 1 = [3, 4, 0]
   \<and> tensors (fst (Gridded_set_number_of_scattering_coeffs 1 example_store2 example_gridded2))
     (data (snd (Gridded_set_number_of_scattering_coeffs 1 example_store2 example_gridded2)))
     ! 0 ! 0 ! 0 ! 0 ! 0 ! 1 = [3]
   \<and> Gridded_set_number_of_scattering_coeffs 2 example_store2 example_gridded2
     = (example_store2, example_gridded2)"
proof -
  have alloc: "data example_gridded2 < next_tensor example_store2"
    by (simp add: example_store2_def example_gridded2_def)
  have old: "tensors example_store2 (data example_gridded2) ! 0 ! 0 ! 0 ! 0 ! 0 ! 1 = [3, 4]"
    by (simp add: example_store2_def)
  have p: "(0::nat) < 1" "(0::nat) < 2" "(1::nat) < 2" by simp_all
  show ?thesis
    using Gridded_set_number_of_scattering_coeffs_resize
            [OF example_gridded2_dims p(1) p(1) p(1) p(1) p(1) p(2) alloc p(1) p(1) p(1) p(1) p(1) p(3),
             of 1] old
    by simp
qed


section \<open>Setting the data of a gridded field\<close>


lemma rect5_dimensions5:
  assumes "rect n2 (rect n3 (rect n4 (rect n5 (\<lambda>v. length v = n6)))) x"
    and "0 < n2" "0 < n3" "0 < n4" "0 < n5"
  shows "dimensions5 x = [n2, n3, n4, n5, n6]"
proof -
  note 1 = rect_first[OF assms(1,2)]
  note 2 = rect_first[OF 1 assms(3)]
  note 3 = rect_first[OF 2 assms(4)]
  note 4 = rect_first[OF 3 assms(5)]
  show ?thesis
    unfolding dimensions5_def
    using rect_length[OF assms(1)] rect_length[OF 1] rect_length[OF 2] rect_length[OF 3] 4
    by simp
qed

lemma has_dims7_subtensor:
  assumes "has_dims7 n0 n1 n2 n3 n4 n5 n6 d" "f < n0" "t < n1"
  shows "rect n2 (rect n3 (rect n4 (rect n5 (\<lambda>v. length v = n6)))) (d ! f ! t)"
  using assms unfolding has_dims7_def by (blast dest: rect_nth)

lemma has_dims7_lengths:
  assumes "has_dims7 n0 n1 n2 n3 n4 n5 n6 d"
  shows "length d = n0" "f < n0 \<Longrightarrow> length (d ! f) = n1"
  using assms unfolding has_dims7_def by (blast dest: rect_nth rect_length)+

text \<open>
  C5: for a gridded field, \<^verbatim>\<open>set_data(freq_idx, temp_idx, other)\<close> fails with a
  dimension mismatch, at once and with the data of the field as they were, whenever
  the element axis of \<open>other\<close> and the element axis of the field differ in
  length. When the two lengths agree, the angular data of \<open>other\<close> are regridded
  to the angular grids of the field and overwrite the sub-tensor at the given
  frequency and temperature indices; every other sub-tensor and every grid stays. The
  regridder returns a tensor with the angular sizes of its target grids and the
  element axis of its input; the angular grids of the field are not empty and the
  indices are in range.
\<close>

theorem Gridded_set_data_dimension_mismatch:
  fixes regrid :: "nat list \<Rightarrow> real list list \<Rightarrow> real list list \<Rightarrow> real tensor7 \<Rightarrow> real tensor7"
  defines "regridded \<equiv> \<lambda>other h this.
             regrid [2, 3, 4, 5]
               [vectors h (lon_inc other), vectors h (lat_inc other),
                vectors h (lon_scat other), vectors h (lat_scat other)]
               [vectors h (lon_inc this), vectors h (lat_inc this),
                vectors h (lon_scat this), vectors h (lat_scat this)]
               (tensors h (data other))"
  assumes this_dims: "has_dims7 (n_freqs this) (n_temps this) (n_lon_inc this) (n_lat_inc this)
            (n_lon_scat this) (n_lat_scat this) n (tensors h (data this))"
    and regridded_dims: "has_dims7 m0 m1 (n_lon_inc this) (n_lat_inc this)
            (n_lon_scat this) (n_lat_scat this) n' (regridded other h this)"
    and other_pos: "0 < m0" "0 < m1"
    and pos: "0 < n_lon_inc this" "0 < n_lat_inc this" "0 < n_lon_scat this" "0 < n_lat_scat this"
    and idx: "f < n_freqs this" "t < n_temps this"
  shows "(n' \<noteq> n \<longrightarrow> Gridded_set_data regrid f t other h this = Inl DimensionMismatch)
       \<and> (n' = n \<longrightarrow>
           (\<exists>h'. Gridded_set_data regrid f t other h this = Inr h'
              \<and> vectors h' = vectors h
              \<and> tensors h' (data this) ! f ! t = regridded other h this ! 0 ! 0
              \<and> (\<forall>f' t'. f' < n_freqs this \<and> t' < n_temps this \<and> (f' \<noteq> f \<or> t' \<noteq> t) \<longrightarrow>
                    tensors h' (data this) ! f' ! t' = tensors h (data this) ! f' ! t')))"
proof -
  let ?r = "regridded other h this"
  let ?d = "tensors h (data this)"
  have a: "dimensions5 (?d ! f ! t)
           = [n_lon_inc this, n_lat_inc this, n_lon_scat this, n_lat_scat this, n]"
    using has_dims7_subtensor[OF this_dims idx] pos by (rule rect5_dimensions5)
  have b: "dimensions5 (?r ! 0 ! 0)
           = [n_lon_inc this, n_lat_inc this, n_lon_scat this, n_lat_scat this, n']"
    using has_dims7_subtensor[OF regridded_dims other_pos] pos by (rule rect5_dimensions5)
  have l: "f < length ?d" "t < length (?d ! f)"
    using has_dims7_lengths[OF this_dims] idx by simp_all
  have set: "Gridded_set_data regrid f t other h this
             = (if n' = n then Inr (h\<lparr>tensors := (tensors h)(data this := ?d[f := (?d ! f)[t := ?r ! 0 ! 0]])\<rparr>)
                else Inl DimensionMismatch)"
    using a b unfolding regridded_def
    by (simp add: Gridded_set_data_def tensor_index_assign_def Let_def)
  have new: "?d[f := (?d ! f)[t := ?r ! 0 ! 0]] ! f ! t = ?r ! 0 ! 0"
    using l by simp
  have old: "?d[f := (?d ! f)[t := ?r ! 0 ! 0]] ! f' ! t' = ?d ! f' ! t'"
    if "f' \<noteq> f \<or> t' \<noteq> t" for f' t'
    using that l by (cases "f' = f") simp_all
  show ?thesis
    unfolding set using new old by simp
qed

theorem Gridded_set_data_dimension_mismatch_witness:
  "Gridded_set_data regrid_identical 0 0 example_other1 example_store3 example_gridded2
     = Inl DimensionMismatch
   \<and> (\<exists>h'. Gridded_set_data regrid_identical 0 0 example_other2 example_store3 example_gridded2
            = Inr h'
          \<and> tensors h' (data example_gridded2) ! 0 ! 0 = [[[[[5, 6], [7, 8]]]]])"
proof -
  let ?fld = example_gridded2 and ?h = example_store3
  have this_dims: "has_dims7 (n_freqs ?fld) (n_temps ?fld) (n_lon_inc ?fld) (n_lat_inc ?fld)
            (n_lon_scat ?fld) (n_lat_scat ?fld) 2 (tensors ?h (data ?fld))"
    by (simp add: example_gridded2_def example_store3_def has_dims7_def rect_def)
  have dims1: "has_dims7 1 1 (n_lon_inc ?fld) (n_lat_inc ?fld)
            (n_lon_scat ?fld) (n_lat_scat ?fld) 1
            (regrid_identical [2, 3, 4, 5]
               [vectors ?h (lon_inc example_other1), vectors ?h (lat_inc example_other1),
                vectors ?h (lon_scat example_other1), vectors ?h (lat_scat example_other1)]
               [vectors ?h (lon_inc ?fld), vectors ?h (lat_inc ?fld),
                vectors ?h (lon_scat ?fld), vectors ?h (lat_scat ?fld)]
               (tensors ?h (data example_other1)))"
    by (simp add: example_gridded2_def example_other1_def example_store3_def has_dims7_def
        rect_def regrid_identical_def)
  have dims2: "has_dims7 1 1 (n_lon_inc ?fld) (n_lat_inc ?fld)
            (n_lon_scat ?fld) (n_lat_scat ?fld) 2
            (regrid_identical [2, 3, 4, 5]
               [vectors ?h (lon_inc example_other2), vectors ?h (lat_inc example_other2),
                vectors ?h (lon_scat example_other2), vectors ?h (lat_scat example_other2)]
               [vectors ?h (lon_inc ?fld), vectors ?h (lat_inc ?fld),
                vectors ?h (lon_scat ?fld), vectors ?h (lat_scat ?fld)]
               (tensors ?h (data example_other2)))"
    by (simp add: example_gridded2_def example_other2_def example_store3_def has_dims7_def
        rect_def regrid_identical_def)
  have pos: "(0::nat) < 1" "0 < n_lon_inc ?fld" "0 < n_lat_inc ?fld" "0 < n_lon_scat ?fld"
    "0 < n_lat_scat ?fld" "0 < n_freqs ?fld" "0 < n_temps ?fld"
    by (simp_all add: example_gridded2_def)
  have r2: "regrid_identical [2, 3, 4, 5]
               [vectors ?h (lon_inc example_other2), vectors ?h (lat_inc example_other2),
                vectors ?h (lon_scat example_other2), vectors ?h (lat_scat example_other2)]
               [vectors ?h (lon_inc ?fld), vectors ?h (lat_inc ?fld),
                vectors ?h (lon_scat ?fld), vectors ?h (lat_scat ?fld)]
               (tensors ?h (data example_other2)) ! 0 ! 0 = [[[[[5, 6], [7, 8]]]]]"
    by (simp add: regrid_identical_def example_other2_def example_store3_def)
  show ?thesis
    using Gridded_set_data_dimension_mismatch
            [where regrid = regrid_identical and other = example_other1,
             OF this_dims dims1 pos(1) pos(1) pos(2-5) pos(6,7)]
          Gridded_set_data_dimension_mismatch
            [where regrid = regrid_identical and other = example_other2,
             OF this_dims dims2 pos(1) pos(1) pos(2-5) pos(6,7)]
    unfolding r2 by auto
qed


section \<open>Change of truncation of a spectral field\<close>


lemma index_in_Some: "index_in xs x = Some i \<Longrightarrow> i < length xs \<and> xs ! i = x"
  by (induction xs arbitrary: i) (auto split: if_splits)

lemma index_in_None: "(index_in xs x = None) = (x \<notin> set xs)"
  by (induction xs) auto

lemma set_lm_pairs:
  "((l, m) \<in> set (lm_pairs sht)) = (m \<le> m_max sht \<and> m \<le> l \<and> l \<le> l_max sht)"
proof -
  have eq: "set (lm_pairs sht)
        = (\<Union>m' \<in> {0..<Suc (m_max sht)}. (\<lambda>l'. (l', m')) ` {m'..<Suc (l_max sht)})"
    by (simp add: lm_pairs_def del: upt_Suc)
  show ?thesis
  proof
    assume "(l, m) \<in> set (lm_pairs sht)"
    then show "m \<le> m_max sht \<and> m \<le> l \<and> l \<le> l_max sht"
      unfolding eq by auto
  next
    assume a: "m \<le> m_max sht \<and> m \<le> l \<and> l \<le> l_max sht"
    then have "m \<in> {0..<Suc (m_max sht)}" "l \<in> {m..<Suc (l_max sht)}" by simp_all
    then show "(l, m) \<in> set (lm_pairs sht)"
      unfolding eq by blast
  qed
qed

lemma lm_index_present:
  "(lm_index sht l m \<noteq> None) = (m \<le> m_max sht \<and> m \<le> l \<and> l \<le> l_max sht)"
  by (auto simp: lm_index_def index_in_None set_lm_pairs)

lemma get_n_spectral_coeffs_pos: "0 < get_n_spectral_coeffs sht"
proof -
  have "(0, 0) \<in> set (lm_pairs sht)" by (simp add: set_lm_pairs)
  then show ?thesis unfolding get_n_spectral_coeffs_def by (cases "lm_pairs sht") auto
qed

lemma length_add_coeffs: "length (add_coeffs sl v sr w) = get_n_spectral_coeffs sl"
  by (simp add: add_coeffs_def)

lemma add_coeffs_nth:
  "i < get_n_spectral_coeffs sl \<Longrightarrow>
   add_coeffs sl v sr w ! i
   = v ! i + (case index_in (lm_pairs sr) (lm_pairs sl ! i) of Some j \<Rightarrow> w ! j | None \<Rightarrow> 0)"
  by (simp add: add_coeffs_def)

lemma set_subvector_nth:
  "k < length b \<Longrightarrow> set_subvector e v b ! k = (b ! k)[e := v ! k]"
  by (simp add: set_subvector_def)

lemma length_set_subvector: "length (set_subvector e v b) = length b"
  by (simp add: set_subvector_def)

lemma iadd_inv_step:
  assumes inv: "iadd_inv sl sr n bl br j b" and j: "j < n"
  shows "iadd_inv sl sr n bl br (Suc j)
           (set_subvector j (add_coeffs sl (get_subvector j b) sr (get_subvector j br)) b)"
proof -
  have len: "length b = length bl" using inv by (simp add: iadd_inv_def)
  have rows: "\<And>k. k < length bl \<Longrightarrow> length (b ! k) = n"
    using inv by (simp add: iadd_inv_def)
  have ent: "\<And>k e. k < length bl \<Longrightarrow> e < n \<Longrightarrow> b ! k ! e =
            (if e < j then add_coeffs sl (get_subvector e bl) sr (get_subvector e br) ! k
             else bl ! k ! e)"
    using inv by (simp add: iadd_inv_def)
  have col: "get_subvector j b = get_subvector j bl"
    using len ent j by (simp add: get_subvector_def list_eq_iff_nth_eq)
  show ?thesis
    unfolding iadd_inv_def col
  proof (intro conjI allI impI)
    show "length (set_subvector j (add_coeffs sl (get_subvector j bl) sr (get_subvector j br)) b)
          = length bl"
      by (simp add: length_set_subvector len)
  next
    fix k assume k: "k < length bl"
    then show "length (set_subvector j (add_coeffs sl (get_subvector j bl) sr (get_subvector j br)) b ! k) = n"
      using len rows by (simp add: set_subvector_nth)
  next
    fix k e assume k: "k < length bl" and e: "e < n"
    show "set_subvector j (add_coeffs sl (get_subvector j bl) sr (get_subvector j br)) b ! k ! e
          = (if e < Suc j then add_coeffs sl (get_subvector e bl) sr (get_subvector e br) ! k
             else bl ! k ! e)"
    proof (cases "e = j")
      case True
      then show ?thesis using k len rows[OF k] j by (simp add: set_subvector_nth)
    next
      case False
      then show ?thesis using k len ent[OF k e] by (auto simp: set_subvector_nth)
    qed
  qed
qed

lemma iadd_block_inv:
  assumes rows: "\<forall>k<length bl. length (bl ! k) = n" and j: "j \<le> n"
  shows "iadd_inv sl sr n bl br j
           (fold (\<lambda>e b. set_subvector e
                   (add_coeffs sl (get_subvector e b) sr (get_subvector e br)) b) [0..<j] bl)"
  using j
proof (induction j)
  case 0
  then show ?case using rows by (simp add: iadd_inv_def)
next
  case (Suc j)
  then show ?case by (simp add: iadd_inv_step)
qed

lemma iadd_block_nth:
  assumes "rect nl (\<lambda>v. length v = n) bl" "k < nl" "e < n"
  shows "iadd_block sl sr n bl br ! k ! e
         = add_coeffs sl (get_subvector e bl) sr (get_subvector e br) ! k"
    and "length (iadd_block sl sr n bl br) = nl"
    and "length (iadd_block sl sr n bl br ! k) = n"
proof -
  have rows: "\<forall>k<length bl. length (bl ! k) = n" and len: "length bl = nl"
    using assms(1) by (simp_all add: rect_def list_all_length)
  have "iadd_inv sl sr n bl br n (iadd_block sl sr n bl br)"
    unfolding iadd_block_def by (rule iadd_block_inv[OF rows]) simp
  then show "iadd_block sl sr n bl br ! k ! e
         = add_coeffs sl (get_subvector e bl) sr (get_subvector e br) ! k"
    and "length (iadd_block sl sr n bl br) = nl"
    and "length (iadd_block sl sr n bl br ! k) = n"
    using assms(2,3) len by (simp_all add: iadd_inv_def)
qed


lemma has_dims6_dimensions6:
  assumes "has_dims6 n0 n1 n2 n3 n4 n5 d" "0 < n0" "0 < n1" "0 < n2" "0 < n3" "0 < n4"
  shows "dimensions6 d = [n0, n1, n2, n3, n4, n5]"
proof -
  have 0: "rect n0 (rect n1 (rect n2 (rect n3 (rect n4 (\<lambda>v. length v = n5))))) d"
    using assms(1) by (simp add: has_dims6_def)
  note 1 = rect_first[OF 0 assms(2)]
  note 2 = rect_first[OF 1 assms(3)]
  note 3 = rect_first[OF 2 assms(4)]
  note 4 = rect_first[OF 3 assms(5)]
  note 5 = rect_first[OF 4 assms(6)]
  show ?thesis
    unfolding dimensions6_def dimension_5_def
    using rect_length[OF 0] rect_length[OF 1] rect_length[OF 2] rect_length[OF 3]
      rect_length[OF 4] 5
    by simp
qed

lemma has_dims6_block:
  assumes "has_dims6 n0 n1 n2 n3 n4 n5 d" "f < n0" "t < n1" "lo < n2" "la < n3"
  shows "rect n4 (\<lambda>v. length v = n5) (d ! f ! t ! lo ! la)"
  using assms unfolding has_dims6_def by (blast dest: rect_nth)

lemma first_replicate: "0 < n \<Longrightarrow> first (replicate n x) = x"
  by (cases n) (simp_all add: first_def)

lemma dimension_5_zeros6:
  assumes "0 < n0" "0 < n1" "0 < n2" "0 < n3" "0 < n4"
  shows "dimension_5 (zeros6 [n0, n1, n2, n3, n4, n5]) = n5"
  using assms by (simp add: dimension_5_def zeros6_def first_replicate)

lemma zeros6_block:
  assumes "f < n0" "t < n1" "lo < n2" "la < n3"
  shows "zeros6 [n0, n1, n2, n3, n4, n5] ! f ! t ! lo ! la = replicate n4 (replicate n5 0)"
  using assms by (simp add: zeros6_def)

lemma Spectral_iadd_nth:
  assumes "f < n_freqs this" "t < n_temps this" "lo < n_lon_inc this" "la < n_lat_inc this"
  shows "tensors (Spectral_iadd regrid other h this) (data this) ! f ! t ! lo ! la
         = iadd_block (sht_scat this) (sht_scat other) (dimension_5 (tensors h (data this)))
             (tensors h (data this) ! f ! t ! lo ! la)
             (regrid [0, 1, 2, 3]
                [vectors h (f_grid other), vectors h (t_grid other),
                 vectors h (lon_inc other), vectors h (lat_inc other)]
                [vectors h (f_grid this), vectors h (t_grid this),
                 vectors h (lon_inc this), vectors h (lat_inc this)]
                (tensors h (data other)) ! f ! t ! lo ! la)"
  using assms by (simp add: Spectral_iadd_def Let_def)

lemma Spectral_iadd_vectors: "vectors (Spectral_iadd regrid other h this) = vectors h"
  by (simp add: Spectral_iadd_def Let_def)

text \<open>
  C6: for a spectral field, \<^verbatim>\<open>to_spectral\<close> with a new truncation pads or
  truncates in coefficient space. At every coordinate the coefficient axis of the
  result has the coefficient count of the new truncation; a coefficient whose degree
  and order are present in the new and in the old truncation is the coefficient of the
  source; a coefficient present in the new truncation only is zero; coefficients
  present in the old truncation only have no place in the result. The result refers
  to the frequency, temperature and incoming-angle grids of the source, which are not
  changed, and has the element axis of the source. A degree and order are present in
  a truncation exactly when the order is at most the maximum order and the degree
  lies between the order and the maximum degree. The regridder is the identity on
  the identical grids of source and result.
\<close>

theorem Spectral_to_spectral_truncation:
  fixes regrid :: "nat list \<Rightarrow> real list list \<Rightarrow> real list list \<Rightarrow> complex tensor6 \<Rightarrow> complex tensor6"
  defines "src \<equiv> \<lambda>h this. tensors h (data this)"
  defines "res \<equiv> \<lambda>sht_other h this.
             tensors (fst (Spectral_to_spectral regrid sht_other h this))
               (data (snd (Spectral_to_spectral regrid sht_other h this)))"
  assumes dims: "has_dims6 (n_freqs this) (n_temps this) (n_lon_inc this) (n_lat_inc this)
            (get_n_spectral_coeffs (sht_scat this)) n (src h this)"
    and sizes: "n_freqs this = length (vectors h (f_grid this))"
      "n_temps this = length (vectors h (t_grid this))"
      "n_lon_inc this = length (vectors h (lon_inc this))"
      "n_lat_inc this = length (vectors h (lat_inc this))"
    and alloc: "data this < next_tensor h"
    and same_grid: "regrid [0, 1, 2, 3]
            [vectors h (f_grid this), vectors h (t_grid this),
             vectors h (lon_inc this), vectors h (lat_inc this)]
            [vectors h (f_grid this), vectors h (t_grid this),
             vectors h (lon_inc this), vectors h (lat_inc this)]
            (src h this) = src h this"
    and idx: "f < n_freqs this" "t < n_temps this" "lo < n_lon_inc this" "la < n_lat_inc this"
      "e < n"
  shows "length (res sht_other h this ! f ! t ! lo ! la) = get_n_spectral_coeffs sht_other
       \<and> (\<forall>l m i. lm_index sht_other l m = Some i \<longrightarrow>
            length (res sht_other h this ! f ! t ! lo ! la ! i) = n
            \<and> res sht_other h this ! f ! t ! lo ! la ! i ! e
              = (case lm_index (sht_scat this) l m of
                   Some j \<Rightarrow> src h this ! f ! t ! lo ! la ! j ! e
                 | None \<Rightarrow> 0))
       \<and> vectors (fst (Spectral_to_spectral regrid sht_other h this)) = vectors h
       \<and> f_grid (snd (Spectral_to_spectral regrid sht_other h this)) = f_grid this
       \<and> t_grid (snd (Spectral_to_spectral regrid sht_other h this)) = t_grid this
       \<and> lon_inc (snd (Spectral_to_spectral regrid sht_other h this)) = lon_inc this
       \<and> lat_inc (snd (Spectral_to_spectral regrid sht_other h this)) = lat_inc this
       \<and> sht_scat (snd (Spectral_to_spectral regrid sht_other h this)) = sht_other
       \<and> (\<forall>s l m. (lm_index s l m \<noteq> None) = (m \<le> m_max s \<and> m \<le> l \<and> l \<le> l_max s))"
proof -
  let ?d = "tensors h (data this)"
  let ?a = "next_tensor h"
  let ?nc = "get_n_spectral_coeffs sht_other"
  let ?dims = "[n_freqs this, n_temps this, n_lon_inc this, n_lat_inc this, ?nc, n]"
  let ?h1 = "h\<lparr>tensors := (tensors h)(?a := zeros6 ?dims), next_tensor := Suc ?a\<rparr>"
  let ?r = "Spectral_new ?h1 (f_grid this) (t_grid this) (lon_inc this) (lat_inc this) sht_other ?a"
  have pos: "0 < n_freqs this" "0 < n_temps this" "0 < n_lon_inc this" "0 < n_lat_inc this"
    using idx by simp_all
  have d6: "(dimensions6 ?d)[4 := ?nc] = ?dims"
    using has_dims6_dimensions6[OF dims[unfolded src_def] pos get_n_spectral_coeffs_pos] by simp
  have ts: "Spectral_to_spectral regrid sht_other h this = (Spectral_iadd regrid this ?h1 ?r, ?r)"
    by (simp add: Spectral_to_spectral_def Let_def d6)
  have r: "n_freqs ?r = n_freqs this" "n_temps ?r = n_temps this" "n_lon_inc ?r = n_lon_inc this"
    "n_lat_inc ?r = n_lat_inc this" "data ?r = ?a" "sht_scat ?r = sht_other"
    "f_grid ?r = f_grid this" "t_grid ?r = t_grid this" "lon_inc ?r = lon_inc this"
    "lat_inc ?r = lat_inc this"
    by (simp_all add: Spectral_new_def sizes)
  have ne: "data this \<noteq> ?a" using alloc by simp
  have h1: "tensors ?h1 (data this) = ?d" "tensors ?h1 ?a = zeros6 ?dims" "vectors ?h1 = vectors h"
    using ne by simp_all
  have idx': "f < n_freqs ?r" "t < n_temps ?r" "lo < n_lon_inc ?r" "la < n_lat_inc ?r"
    using idx r by simp_all
  have blk: "res sht_other h this ! f ! t ! lo ! la
        = iadd_block sht_other (sht_scat this) n (replicate ?nc (replicate n 0))
            (?d ! f ! t ! lo ! la)"
    unfolding res_def ts fst_conv snd_conv
    using Spectral_iadd_nth[OF idx', of regrid this ?h1]
      same_grid[unfolded src_def] zeros6_block[OF idx(1-4), of ?nc n]
      dimension_5_zeros6[OF pos get_n_spectral_coeffs_pos, of sht_other n] ne
    by (simp add: r)
  have zr: "rect ?nc (\<lambda>v. length v = n) (replicate ?nc (replicate n (0::complex)))"
    by (simp add: rect_def list_all_length)
  have sb: "rect (get_n_spectral_coeffs (sht_scat this)) (\<lambda>v. length v = n) (?d ! f ! t ! lo ! la)"
    using dims[unfolded src_def] idx(1-4) by (rule has_dims6_block)
  show ?thesis
  proof (intro conjI allI impI)
    show "length (res sht_other h this ! f ! t ! lo ! la) = ?nc"
      unfolding blk using get_n_spectral_coeffs_pos[of sht_other] idx(5)
      by (intro iadd_block_nth(2)[OF zr, of 0 e]) simp_all
  next
    fix l m i assume lm: "lm_index sht_other l m = Some i"
    then have i: "i < ?nc" "lm_pairs sht_other ! i = (l, m)"
      using index_in_Some[of "lm_pairs sht_other" "(l, m)" i]
      by (simp_all add: lm_index_def get_n_spectral_coeffs_def)
    show "length (res sht_other h this ! f ! t ! lo ! la ! i) = n"
      unfolding blk using zr i(1) idx(5) by (rule iadd_block_nth(3))
    have "res sht_other h this ! f ! t ! lo ! la ! i ! e
          = add_coeffs sht_other (get_subvector e (replicate ?nc (replicate n 0)))
              (sht_scat this) (get_subvector e (?d ! f ! t ! lo ! la)) ! i"
      unfolding blk using zr i(1) idx(5) by (rule iadd_block_nth(1))
    also have "\<dots> = (case lm_index (sht_scat this) l m of
                   Some j \<Rightarrow> get_subvector e (?d ! f ! t ! lo ! la) ! j
                 | None \<Rightarrow> 0)"
    proof -
      have "get_subvector e (replicate ?nc (replicate n (0::complex))) ! i = 0"
        using i(1) idx(5) by (simp add: get_subvector_def)
      then show ?thesis
        using i by (simp add: add_coeffs_nth lm_index_def)
    qed
    also have "\<dots> = (case lm_index (sht_scat this) l m of
                   Some j \<Rightarrow> ?d ! f ! t ! lo ! la ! j ! e
                 | None \<Rightarrow> 0)"
    proof (cases "lm_index (sht_scat this) l m")
      case None
      then show ?thesis by simp
    next
      case (Some j)
      then have "j < get_n_spectral_coeffs (sht_scat this)"
        using index_in_Some[of "lm_pairs (sht_scat this)" "(l, m)" j]
        by (simp add: lm_index_def get_n_spectral_coeffs_def)
      then have "j < length (?d ! f ! t ! lo ! la)"
        using rect_length[OF sb] by simp
      then show ?thesis using Some by (simp add: get_subvector_def)
    qed
    finally show "res sht_other h this ! f ! t ! lo ! la ! i ! e
              = (case lm_index (sht_scat this) l m of
                   Some j \<Rightarrow> src h this ! f ! t ! lo ! la ! j ! e
                 | None \<Rightarrow> 0)"
      unfolding src_def .
  qed (simp_all only: lm_index_present, simp_all add: ts Spectral_iadd_vectors r)
qed


theorem Spectral_to_spectral_truncation_witness:
  "tensors (fst (Spectral_to_spectral regrid_identical \<lparr>l_max = 2, m_max = 1, n_lon = 1, n_lat = 2\<rparr>
                   example_spectral_store example_spectral))
     (data (snd (Spectral_to_spectral regrid_identical \<lparr>l_max = 2, m_max = 1, n_lon = 1, n_lat = 2\<rparr>
                   example_spectral_store example_spectral))) ! 0 ! 0 ! 0 ! 0 ! 1 ! 0 = Complex 5 6
   \<and> tensors (fst (Spectral_to_spectral regrid_identical \<lparr>l_max = 2, m_max = 1, n_lon = 1, n_lat = 2\<rparr>
                   example_spectral_store example_spectral))
     (data (snd (Spectral_to_spectral regrid_identical \<lparr>l_max = 2, m_max = 1, n_lon = 1, n_lat = 2\<rparr>
                   example_spectral_store example_spectral))) ! 0 ! 0 ! 0 ! 0 ! 3 ! 0 = 0
   \<and> length (tensors (fst (Spectral_to_spectral regrid_identical \<lparr>l_max = 2, m_max = 1, n_lon = 1, n_lat = 2\<rparr>
                   example_spectral_store example_spectral))
     (data (snd (Spectral_to_spectral regrid_identical \<lparr>l_max = 2, m_max = 1, n_lon = 1, n_lat = 2\<rparr>
                   example_spectral_store example_spectral))) ! 0 ! 0 ! 0 ! 0) = 5"
proof -
  let ?new = "\<lparr>l_max = 2, m_max = 1, n_lon = 1, n_lat = 2\<rparr>"
  let ?fld = example_spectral and ?h = example_spectral_store
  have old_pairs: "lm_pairs (sht_scat ?fld) = [(0, 0), (1, 0)]"
    by (simp add: lm_pairs_def example_spectral_def)
  have new_pairs: "lm_pairs ?new = [(0, 0), (1, 0), (2, 0), (1, 1), (2, 1)]"
    by code_simp
  have dims: "has_dims6 (n_freqs ?fld) (n_temps ?fld) (n_lon_inc ?fld) (n_lat_inc ?fld)
            (get_n_spectral_coeffs (sht_scat ?fld)) 2 (tensors ?h (data ?fld))"
    unfolding get_n_spectral_coeffs_def old_pairs
    by (simp add: example_spectral_def example_spectral_store_def has_dims6_def rect_def)
  have sizes: "n_freqs ?fld = length (vectors ?h (f_grid ?fld))"
      "n_temps ?fld = length (vectors ?h (t_grid ?fld))"
      "n_lon_inc ?fld = length (vectors ?h (lon_inc ?fld))"
      "n_lat_inc ?fld = length (vectors ?h (lat_inc ?fld))"
    by (simp_all add: example_spectral_def example_spectral_store_def)
  have alloc: "data ?fld < next_tensor ?h"
    by (simp add: example_spectral_def example_spectral_store_def)
  have same: "regrid_identical [0, 1, 2, 3]
            [vectors ?h (f_grid ?fld), vectors ?h (t_grid ?fld),
             vectors ?h (lon_inc ?fld), vectors ?h (lat_inc ?fld)]
            [vectors ?h (f_grid ?fld), vectors ?h (t_grid ?fld),
             vectors ?h (lon_inc ?fld), vectors ?h (lat_inc ?fld)]
            (tensors ?h (data ?fld)) = tensors ?h (data ?fld)"
    by (simp add: regrid_identical_def)
  have idx: "0 < n_freqs ?fld" "0 < n_temps ?fld" "0 < n_lon_inc ?fld" "0 < n_lat_inc ?fld"
    "(0::nat) < 2"
    by (simp_all add: example_spectral_def)
  have lm: "lm_index ?new 1 0 = Some 1" "lm_index ?new 1 1 = Some 3"
    "lm_index (sht_scat ?fld) 1 0 = Some 1" "lm_index (sht_scat ?fld) 1 1 = None"
    unfolding lm_index_def old_pairs new_pairs by simp_all
  have src: "tensors ?h (data ?fld) ! 0 ! 0 ! 0 ! 0 ! 1 ! 0 = Complex 5 6"
    by (simp add: example_spectral_store_def)
  have nc: "get_n_spectral_coeffs ?new = 5"
    unfolding get_n_spectral_coeffs_def new_pairs by simp
  show ?thesis
    using Spectral_to_spectral_truncation
            [where regrid = regrid_identical and sht_other = ?new,
             OF dims sizes alloc same idx] lm src nc
    by simp
qed


section \<open>What the mutating operations leave alone\<close>


lemma Gridded_set_number_frame:
  "vectors (fst (Gridded_set_number_of_scattering_coeffs n h this)) = vectors h"
  "tensors (fst (Gridded_set_number_of_scattering_coeffs n h this))
     = (tensors h)(next_tensor h :=
         tensors (fst (Gridded_set_number_of_scattering_coeffs n h this)) (next_tensor h))"
  "snd (Gridded_set_number_of_scattering_coeffs n h this)
     = this\<lparr>data := data (snd (Gridded_set_number_of_scattering_coeffs n h this))\<rparr>"
  by (simp_all add: Gridded_set_number_of_scattering_coeffs_def Let_def)

lemma Spectral_set_number_frame:
  "vectors (fst (Spectral_set_number_of_scattering_coeffs n h this)) = vectors h"
  "tensors (fst (Spectral_set_number_of_scattering_coeffs n h this))
     = (tensors h)(next_tensor h :=
         tensors (fst (Spectral_set_number_of_scattering_coeffs n h this)) (next_tensor h))"
  "snd (Spectral_set_number_of_scattering_coeffs n h this)
     = this\<lparr>data := data (snd (Spectral_set_number_of_scattering_coeffs n h this))\<rparr>"
  by (simp_all add: Spectral_set_number_of_scattering_coeffs_def Let_def)

lemma FullySpectral_set_number_frame:
  "vectors (fst (FullySpectral_set_number_of_scattering_coeffs n h this)) = vectors h"
  "tensors (fst (FullySpectral_set_number_of_scattering_coeffs n h this))
     = (tensors h)(next_tensor h :=
         tensors (fst (FullySpectral_set_number_of_scattering_coeffs n h this)) (next_tensor h))"
  "snd (FullySpectral_set_number_of_scattering_coeffs n h this)
     = this\<lparr>data := data (snd (FullySpectral_set_number_of_scattering_coeffs n h this))\<rparr>"
  by (simp_all add: FullySpectral_set_number_of_scattering_coeffs_def Let_def)

lemma in_place_frame:
  "Gridded_iadd regrid other h7 g
     = h7\<lparr>tensors := (tensors h7)(data g := tensors (Gridded_iadd regrid other h7 g) (data g))\<rparr>"
  "Gridded_imul c h7 g
     = h7\<lparr>tensors := (tensors h7)(data g := tensors (Gridded_imul c h7 g) (data g))\<rparr>"
  "Gridded_normalize ia fdiv fmul v h7 g
     = h7\<lparr>tensors := (tensors h7)(data g := tensors (Gridded_normalize ia fdiv fmul v h7 g) (data g))\<rparr>"
  "Spectral_iadd regrid6 other6 h6 s
     = h6\<lparr>tensors := (tensors h6)(data s := tensors (Spectral_iadd regrid6 other6 h6 s) (data s))\<rparr>"
  "Spectral_imul c h6 s
     = h6\<lparr>tensors := (tensors h6)(data s := tensors (Spectral_imul c h6 s) (data s))\<rparr>"
  "Spectral_normalize v h6 s
     = h6\<lparr>tensors := (tensors h6)(data s := tensors (Spectral_normalize v h6 s) (data s))\<rparr>"
  "FullySpectral_iadd regrid5 add_coeffs2 other5 h5 fs
     = h5\<lparr>tensors := (tensors h5)(data fs :=
          tensors (FullySpectral_iadd regrid5 add_coeffs2 other5 h5 fs) (data fs))\<rparr>"
  "FullySpectral_imul c h5 fs
     = h5\<lparr>tensors := (tensors h5)(data fs := tensors (FullySpectral_imul c h5 fs) (data fs))\<rparr>"
  by (simp_all add: Gridded_iadd_def Gridded_imul_def Gridded_normalize_def Spectral_iadd_def
      Spectral_imul_def Spectral_normalize_def FullySpectral_iadd_def FullySpectral_imul_def Let_def)


lemma grids_vectors:
  "vectors h' = vectors h \<Longrightarrow> Gridded_grids h' g = Gridded_grids h g"
  "vectors h' = vectors h \<Longrightarrow> Spectral_grids h' s = Spectral_grids h s"
  "vectors h' = vectors h \<Longrightarrow> FullySpectral_grids h' fs = FullySpectral_grids h fs"
  by (simp_all add: Gridded_grids_def Spectral_grids_def FullySpectral_grids_def)

lemma in_place_vectors:
  "vectors (Gridded_iadd regrid other h7 g) = vectors h7"
  "vectors (Gridded_imul c h7 g) = vectors h7"
  "vectors (Gridded_normalize ia fdiv fmul v h7 g) = vectors h7"
  "vectors (Spectral_iadd regrid6 other6 h6 s) = vectors h6"
  "vectors (Spectral_imul c h6 s) = vectors h6"
  "vectors (Spectral_normalize v h6 s) = vectors h6"
  "vectors (FullySpectral_iadd regrid5 add_coeffs2 other5 h5 fs) = vectors h5"
  "vectors (FullySpectral_imul c h5 fs) = vectors h5"
  by (simp_all add: Gridded_iadd_def Gridded_imul_def Gridded_normalize_def Spectral_iadd_def
      Spectral_imul_def Spectral_normalize_def FullySpectral_iadd_def FullySpectral_imul_def Let_def)

lemma set_number_object:
  "Gridded_grids h' (snd (Gridded_set_number_of_scattering_coeffs n h7 g)) = Gridded_grids h' g"
  "get_particle_type (snd (Gridded_set_number_of_scattering_coeffs n h7 g)) = get_particle_type g"
  "Spectral_grids h' (snd (Spectral_set_number_of_scattering_coeffs n h6 s)) = Spectral_grids h' s"
  "get_particle_type (snd (Spectral_set_number_of_scattering_coeffs n h6 s)) = get_particle_type s"
  "FullySpectral_grids h' (snd (FullySpectral_set_number_of_scattering_coeffs n h5 fs))
     = FullySpectral_grids h' fs"
  "get_particle_type (snd (FullySpectral_set_number_of_scattering_coeffs n h5 fs))
     = get_particle_type fs"
  by (simp_all add: Gridded_set_number_of_scattering_coeffs_def
      Spectral_set_number_of_scattering_coeffs_def
      FullySpectral_set_number_of_scattering_coeffs_def Let_def Gridded_grids_def
      Spectral_grids_def FullySpectral_grids_def get_particle_type_def)

text \<open>
  C7: for a field of any of the three formats, \<^verbatim>\<open>operator+=\<close>,
  \<^verbatim>\<open>operator*=\<close>, \<^verbatim>\<open>normalize\<close> (gridded and spectral; the fully spectral
  class has none) and \<^verbatim>\<open>set_number_of_scattering_coeffs\<close> change only the data
  tensor of the field. The grids of the field and of every other field in the store,
  shared or not, are after the operation what they were before, and so is the
  particle type. The operations in place return a store that differs from the old
  one only in the tensor that \<^verbatim>\<open>data_\<close> points to, and leave the object itself
  untouched; \<^verbatim>\<open>set_number_of_scattering_coeffs\<close> writes only the tensor it
  allocates and changes the object only in \<^verbatim>\<open>data_\<close>.
\<close>

theorem mutators_change_only_data:
  fixes g g' :: "'a ScatteringDataFieldGridded_scheme"
    and s s' :: "'b ScatteringDataFieldSpectral_scheme"
    and fs fs' :: "'c ScatteringDataFieldFullySpectral_scheme"
    and h7 :: "real tensor7 store" and h6 :: "complex tensor6 store"
    and h5 :: "complex tensor5 store"
  defines "g_set \<equiv> Gridded_set_number_of_scattering_coeffs"
    and "s_set \<equiv> Spectral_set_number_of_scattering_coeffs"
    and "fs_set \<equiv> FullySpectral_set_number_of_scattering_coeffs"
  shows "Gridded_grids (Gridded_iadd regrid7 other7 h7 g) g' = Gridded_grids h7 g'
       \<and> Gridded_grids (Gridded_imul c h7 g) g' = Gridded_grids h7 g'
       \<and> Gridded_grids (Gridded_normalize ia fdiv fmul v h7 g) g' = Gridded_grids h7 g'
       \<and> Gridded_grids (fst (g_set n h7 g)) g' = Gridded_grids h7 g'
       \<and> Gridded_grids (fst (g_set n h7 g)) (snd (g_set n h7 g)) = Gridded_grids h7 g
       \<and> get_particle_type (snd (g_set n h7 g)) = get_particle_type g
       \<and> Spectral_grids (Spectral_iadd regrid6 other6 h6 s) s' = Spectral_grids h6 s'
       \<and> Spectral_grids (Spectral_imul c h6 s) s' = Spectral_grids h6 s'
       \<and> Spectral_grids (Spectral_normalize v h6 s) s' = Spectral_grids h6 s'
       \<and> Spectral_grids (fst (s_set n h6 s)) s' = Spectral_grids h6 s'
       \<and> Spectral_grids (fst (s_set n h6 s)) (snd (s_set n h6 s)) = Spectral_grids h6 s
       \<and> get_particle_type (snd (s_set n h6 s)) = get_particle_type s
       \<and> FullySpectral_grids (FullySpectral_iadd regrid5 add_coeffs2 other5 h5 fs) fs'
           = FullySpectral_grids h5 fs'
       \<and> FullySpectral_grids (FullySpectral_imul c h5 fs) fs' = FullySpectral_grids h5 fs'
       \<and> FullySpectral_grids (fst (fs_set n h5 fs)) fs' = FullySpectral_grids h5 fs'
       \<and> FullySpectral_grids (fst (fs_set n h5 fs)) (snd (fs_set n h5 fs))
           = FullySpectral_grids h5 fs
       \<and> get_particle_type (snd (fs_set n h5 fs)) = get_particle_type fs
       \<and> Gridded_iadd regrid7 other7 h7 g
           = h7\<lparr>tensors := (tensors h7)(data g :=
                tensors (Gridded_iadd regrid7 other7 h7 g) (data g))\<rparr>
       \<and> Gridded_imul c h7 g
           = h7\<lparr>tensors := (tensors h7)(data g := tensors (Gridded_imul c h7 g) (data g))\<rparr>
       \<and> Gridded_normalize ia fdiv fmul v h7 g
           = h7\<lparr>tensors := (tensors h7)(data g := tensors (Gridded_normalize ia fdiv fmul v h7 g) (data g))\<rparr>
       \<and> Spectral_iadd regrid6 other6 h6 s
           = h6\<lparr>tensors := (tensors h6)(data s :=
                tensors (Spectral_iadd regrid6 other6 h6 s) (data s))\<rparr>
       \<and> Spectral_imul c h6 s
           = h6\<lparr>tensors := (tensors h6)(data s := tensors (Spectral_imul c h6 s) (data s))\<rparr>
       \<and> Spectral_normalize v h6 s
           = h6\<lparr>tensors := (tensors h6)(data s := tensors (Spectral_normalize v h6 s) (data s))\<rparr>
       \<and> FullySpectral_iadd regrid5 add_coeffs2 other5 h5 fs
           = h5\<lparr>tensors := (tensors h5)(data fs :=
                tensors (FullySpectral_iadd regrid5 add_coeffs2 other5 h5 fs) (data fs))\<rparr>
       \<and> FullySpectral_imul c h5 fs
           = h5\<lparr>tensors := (tensors h5)(data fs := tensors (FullySpectral_imul c h5 fs) (data fs))\<rparr>
       \<and> tensors (fst (g_set n h7 g))
           = (tensors h7)(next_tensor h7 := tensors (fst (g_set n h7 g)) (next_tensor h7))
       \<and> tensors (fst (s_set n h6 s))
           = (tensors h6)(next_tensor h6 := tensors (fst (s_set n h6 s)) (next_tensor h6))
       \<and> tensors (fst (fs_set n h5 fs))
           = (tensors h5)(next_tensor h5 := tensors (fst (fs_set n h5 fs)) (next_tensor h5))"
  unfolding g_set_def s_set_def fs_set_def
  by (intro conjI grids_vectors in_place_vectors Gridded_set_number_frame
      Spectral_set_number_frame FullySpectral_set_number_frame in_place_frame
      set_number_object[THEN trans] refl)


section \<open>Properties of the Gauss-Legendre quadrature\<close>


lemma newton_count: "j \<le> n_max_iter \<Longrightarrow> snd (snd (newton n j x dp_dx)) \<le> n_max_iter"
proof (induction n j x dp_dx rule: newton.induct)
  case (1 n j x dp_dx)
  let ?x' = "fst (newton_step n x)" and ?dp = "snd (newton_step n x)"
  show ?case
  proof (cases "j < n_max_iter")
    case True
    show ?thesis
    proof (cases "\<bar>?x' - x\<bar> < 0.5 * (?x' + x)")
      case brk: True
      then have "newton n j x dp_dx = (?x', ?dp, Suc j)"
        using True by (subst newton.simps) (simp add: Let_def)
      then show ?thesis using True by simp
    next
      case False
      then have "newton n j x dp_dx = newton n (Suc j) ?x' ?dp"
        using True by (subst newton.simps) (simp add: Let_def)
      moreover have "snd (snd (newton n (Suc j) ?x' ?dp)) \<le> n_max_iter"
        using True False by (intro "1.IH"[OF True refl refl refl refl refl]) simp_all
      ultimately show ?thesis by simp
    qed
  next
    case False
    then show ?thesis using "1.prems" by (subst newton.simps) simp
  qed
qed

lemma node_step_length:
  "length (fst (node_step n u i s)) = length (fst s)"
  "length (snd (node_step n u i s)) = length (snd s)"
  by (simp_all add: node_step_def Let_def split: prod.splits)

lemma fold_node_step_length:
  "length (fst (fold (node_step n u) is s)) = length (fst s)"
  "length (snd (fold (node_step n u) is s)) = length (snd s)"
  by (induction "is" arbitrary: s) (simp_all add: node_step_length)

lemma GaussLegendreQuadrature_length:
  "length (get_nodes (GaussLegendreQuadrature sc n u junk)) = n"
  "length (get_weights (GaussLegendreQuadrature sc n u junk)) = n"
  unfolding GaussLegendreQuadrature_def calculate_nodes_and_weights_def get_nodes_def
    get_weights_def Let_def fold_node_step_length
  by simp_all

text \<open>
  C10: the construction of the quadrature ends for every degree. The Newton loop for a
  node makes at most 10 passes, the fixed bound \<^verbatim>\<open>n_max_iter\<close>, whether or not the
  convergence test ever holds; the Legendre recurrence and the loop over the nodes are
  bounded by the degree, and the construction returns node and weight vectors of the
  requested length.
\<close>

theorem newton_at_most_10_iterations:
  "snd (snd (newton n 0 x u)) \<le> 10 \<and> n_max_iter = 10
   \<and> length (get_nodes (GaussLegendreQuadrature sc n u junk)) = n
   \<and> length (get_weights (GaussLegendreQuadrature sc n u junk)) = n"
  using newton_count[of 0 n x u]
  by (simp add: GaussLegendreQuadrature_length) (simp add: n_max_iter_def)

lemma node_step_sym:
  assumes inv: "sym_upto n m s" and len: "length (fst s) = n" "length (snd s) = n"
    and m: "2 * m + 1 \<le> n"
  shows "sym_upto n (Suc m) (node_step n u (Suc m) s)"
proof -
  obtain nodes weights where s: "s = (nodes, weights)" by (cases s)
  define x where "x = fst (newton n 0 (initial_guess n (Suc m)) u)"
  define w where "w = (let d = fst (snd (newton n 0 (initial_guess n (Suc m)) u))
                       in 2 * d * d / ((1 - x) * (1 + x)))"
  have ns: "node_step n u (Suc m) s
        = (nodes[m := x, n - Suc m := - x], weights[m := w, n - Suc m := weights[m := w] ! m])"
    unfolding s by (simp add: node_step_def Let_def x_def w_def)
  have lm: "m < n" "n - Suc m < n" using m by simp_all
  have ln: "length nodes = n" "length weights = n" using len s by simp_all
  show ?thesis
    unfolding sym_upto_def
  proof (intro allI impI)
    fix k assume k: "k < Suc m" and ne: "k \<noteq> n - 1 - k"
    show "fst (node_step n u (Suc m) s) ! (n - 1 - k) = - fst (node_step n u (Suc m) s) ! k
        \<and> snd (node_step n u (Suc m) s) ! (n - 1 - k) = snd (node_step n u (Suc m) s) ! k"
    proof (cases "k = m")
      case True
      then show ?thesis unfolding ns using ne lm ln by simp
    next
      case False
      then have km: "k < m" using k by simp
      then have d: "k \<noteq> m" "k \<noteq> n - Suc m" "n - 1 - k \<noteq> m" "n - 1 - k \<noteq> n - Suc m"
        using m by arith+
      have "nodes ! (n - 1 - k) = - nodes ! k \<and> weights ! (n - 1 - k) = weights ! k"
        using inv km ne by (simp add: sym_upto_def s)
      then show ?thesis unfolding ns using d by simp
    qed
  qed
qed

lemma fold_node_step_sym:
  assumes "length (fst s) = n" "length (snd s) = n" "2 * m \<le> n + 1"
  shows "sym_upto n m (fold (node_step n u) [1..<Suc m] s)"
  using assms(3)
proof (induction m)
  case 0
  then show ?case by (simp add: sym_upto_def)
next
  case (Suc m)
  let ?s = "fold (node_step n u) [1..<Suc m] s"
  have l: "length (fst ?s) = n" "length (snd ?s) = n"
    using assms(1,2) by (simp_all add: fold_node_step_length)
  have "sym_upto n m ?s" using Suc by simp
  then have "sym_upto n (Suc m) (node_step n u (Suc m) ?s)"
    using l Suc.prems by (intro node_step_sym) simp_all
  then show ?case by simp
qed

text \<open>
  C9: for every degree \<open>n\<close> of at least 1 the node and weight vectors are
  symmetric under index reversal: for indices \<open>k\<close> and \<open>n - 1 - k\<close> that
  differ, the node at \<open>n - 1 - k\<close> is minus the node at \<open>k\<close> and the two
  weights are equal.
\<close>

theorem GaussLegendreQuadrature_symmetric:
  assumes "1 \<le> n" "k < n" "k \<noteq> n - 1 - k"
  shows "get_nodes (GaussLegendreQuadrature sc n u junk) ! (n - 1 - k)
           = - get_nodes (GaussLegendreQuadrature sc n u junk) ! k
       \<and> get_weights (GaussLegendreQuadrature sc n u junk) ! (n - 1 - k)
           = get_weights (GaussLegendreQuadrature sc n u junk) ! k"
proof -
  let ?q = "GaussLegendreQuadrature sc n u junk"
  have "sym_upto n ((n + 1) div 2) ?q"
    unfolding GaussLegendreQuadrature_def calculate_nodes_and_weights_def Let_def
    by (rule fold_node_step_sym) simp_all
  then have inv: "\<And>j. j < (n + 1) div 2 \<Longrightarrow> j \<noteq> n - 1 - j \<Longrightarrow>
      fst ?q ! (n - 1 - j) = - fst ?q ! j \<and> snd ?q ! (n - 1 - j) = snd ?q ! j"
    by (simp add: sym_upto_def)
  show ?thesis
  proof (cases "k < (n + 1) div 2")
    case True
    then show ?thesis using inv[of k] assms(3) by (simp add: get_nodes_def get_weights_def)
  next
    case False
    then have "n - 1 - k < (n + 1) div 2" "n - 1 - k \<noteq> n - 1 - (n - 1 - k)"
      "n - 1 - (n - 1 - k) = k"
      using assms by arith+
    then show ?thesis using inv[of "n - 1 - k"] by (simp add: get_nodes_def get_weights_def)
  qed
qed


theorem GaussLegendreQuadrature_symmetric_witness:
  "get_nodes (GaussLegendreQuadrature Double 2 0 (\<lambda>i. 0)) ! 1
     = - get_nodes (GaussLegendreQuadrature Double 2 0 (\<lambda>i. 0)) ! 0
   \<and> get_weights (GaussLegendreQuadrature Double 2 0 (\<lambda>i. 0)) ! 1
     = get_weights (GaussLegendreQuadrature Double 2 0 (\<lambda>i. 0)) ! 0"
  using GaussLegendreQuadrature_symmetric[of 2 0 Double 0 "\<lambda>i. 0"] by simp

lemma newton_fixed_point:
  assumes "newton_step n x = (x, d)" "\<not> 0 < x" "j < n_max_iter"
  shows "newton n j x d' = (x, d, n_max_iter)"
  using assms(3)
proof (induction "n_max_iter - j" arbitrary: j d')
  case 0
  then show ?case by simp
next
  case (Suc k)
  have step: "newton n j x d' = newton n (Suc j) x d"
    using Suc.prems assms(1,2) by (subst newton.simps) (simp add: Let_def)
  show ?case
  proof (cases "Suc j < n_max_iter")
    case True
    then show ?thesis using Suc.hyps(1)[of "Suc j" d] Suc.hyps(2) step by simp
  next
    case False
    then have "Suc j = n_max_iter" using Suc.prems by simp
    then show ?thesis using step by (subst (asm) newton.simps) simp
  qed
qed

lemma initial_guess_1: "initial_guess 1 1 = 0"
proof -
  have "pi * (4 * real 1 - 1) / (4 * real 1 + 2) = pi / 2" by simp
  then show ?thesis by (simp add: initial_guess_def Let_def)
qed

lemma newton_step_1_0: "newton_step 1 0 = (0, 1)"
  by (simp add: newton_step_def legendre_def)

text \<open>
  C8 says that the Newton iteration runs until a precision that depends on the scalar
  type is met. The code fetches that precision and never reads it: the loop is left
  when \<^verbatim>\<open>dx < 0.5 * (x + x_old)\<close>. At degree 1 the initial guess is the root 0, the
  first step already has \<open>dx = 0\<close>, below the precision of every scalar type, and
  the loop still makes all 10 passes; the result of the computation is the same for
  every scalar type.
\<close>

theorem newton_ignores_precision:
  "newton 1 0 (initial_guess 1 1) u = (0, 1, 10)
   \<and> \<bar>fst (newton_step 1 (initial_guess 1 1)) - initial_guess 1 1\<bar> < Precision_value sc
   \<and> calculate_nodes_and_weights sc n u s = calculate_nodes_and_weights sc' n u s"
proof -
  have "newton 1 0 0 u = (0, 1, n_max_iter)"
    by (rule newton_fixed_point[OF newton_step_1_0]) (simp_all add: n_max_iter_def)
  moreover have "0 < Precision_value sc"
    by (cases sc) (simp_all add: Precision_value_def)
  ultimately show ?thesis
    unfolding initial_guess_1 newton_step_1_0
    by (simp add: n_max_iter_def calculate_nodes_and_weights_def)
qed


end
